theory Spec2Isabelle
  imports Complex_Main "HOL-Library.Multiset"
begin

section \<open>Python values\<close>

text \<open>
  A Python \<open>str\<close> is a sequence of Unicode code points. Literals of the source that are
  plain ASCII are written \<open>cp ''...''\<close>; Cyrillic literals are written as their code
  points, with a transliteration beside them.

  Amounts are Python floats in the source. They are modelled by exact rationals: rounding,
  infinities and NaN are outside the model.
\<close>

type_synonym pystr = "nat list"

definition cp :: "string \<Rightarrow> pystr" where
  "cp s = map of_char s"

text \<open>
  \<open>s.lower()\<close>, one code point at a time. The capitals mapped are those of ASCII, of the
  basic Cyrillic block, of the extended Cyrillic letters (Kazakh among them) whose capital
  is the even code point before the small letter, and the two code points outside these
  alphabets that Python lower-cases into them: the Kelvin sign U+212A, which becomes \<open>k\<close>,
  and the dotted capital I U+0130, which becomes \<open>i\<close> followed by U+0307. The capitals of
  other alphabets are left as they are; Python maps them to letters of their own alphabet,
  none of which occurs in a keyword of this code.
\<close>

definition lower_cp :: "nat \<Rightarrow> pystr" where
  "lower_cp c =
     (if 0x41 \<le> c \<and> c \<le> 0x5A then [c + 0x20]
      else if 0x410 \<le> c \<and> c \<le> 0x42F then [c + 0x20]
      else if 0x400 \<le> c \<and> c \<le> 0x40F then [c + 0x50]
      else if ((0x48A \<le> c \<and> c \<le> 0x4BF) \<or> (0x4D0 \<le> c \<and> c \<le> 0x4FF)) \<and> even c then [c + 1]
      else if c = 0x212A then [0x6B]
      else if c = 0x130 then [0x69, 0x307]
      else [c])"

definition py_lower :: "pystr \<Rightarrow> pystr" where
  "py_lower s = concat (map lower_cp s)"

text \<open>\<open>starts_with s kw\<close> is \<open>s.startswith(kw)\<close>; \<open>py_in kw s\<close> is the substring test \<open>kw in s\<close>.\<close>

fun starts_with :: "'a list \<Rightarrow> 'a list \<Rightarrow> bool" where
  "starts_with s [] = True"
| "starts_with [] (k # kw) = False"
| "starts_with (c # s) (k # kw) = (c = k \<and> starts_with s kw)"

fun py_in :: "'a list \<Rightarrow> 'a list \<Rightarrow> bool" where
  "py_in kw [] = (kw = [])"
| "py_in kw (c # s) = (starts_with (c # s) kw \<or> py_in kw s)"

datatype py_error = ZeroDivisionError | UnboundLocalError | KeyError | ModuleNotFoundError

text \<open>Python's \<open>a / b\<close> on numbers raises \<open>ZeroDivisionError\<close> when \<open>b\<close> is zero.\<close>

definition py_div :: "rat \<Rightarrow> rat \<Rightarrow> py_error + rat" where
  "py_div a b = (if b = 0 then Inl ZeroDivisionError else Inr (a / b))"

text \<open>
  A \<open>dict\<close> is an association list in insertion order (Python 3.7 and later iterate in that
  order). \<open>dict_get d k v\<close> is \<open>d.get(k, v)\<close>.
\<close>

type_synonym ('k, 'v) pydict = "('k \<times> 'v) list"

definition dict_get :: "('k, 'v) pydict \<Rightarrow> 'k \<Rightarrow> 'v \<Rightarrow> 'v" where
  "dict_get d k dflt = (case map_of d k of None \<Rightarrow> dflt | Some v \<Rightarrow> v)"

text \<open>
  \<open>d[k] += v\<close> on a \<open>defaultdict(float)\<close>: a key that is present keeps its place, a new key
  starts from \<open>0.0\<close> and goes to the end.
\<close>

fun dict_add :: "('k, rat) pydict \<Rightarrow> 'k \<Rightarrow> rat \<Rightarrow> ('k, rat) pydict" where
  "dict_add [] k v = [(k, 0 + v)]"
| "dict_add ((k', v') # d) k v =
     (if k' = k then (k', v' + v) # d else (k', v') # dict_add d k v)"

text \<open>\<open>sum(d.values())\<close>.\<close>

definition sum_values :: "('k, rat) pydict \<Rightarrow> rat" where
  "sum_values d = sum_list (map snd d)"

text \<open>
  \<open>sorted(xs, key=f, reverse=True)\<close>: descending by the key, and stable (elements with equal
  keys keep their order), which is the stable ascending sort by the negated key.
\<close>

definition sorted_desc :: "('a \<Rightarrow> rat) \<Rightarrow> 'a list \<Rightarrow> 'a list" where
  "sorted_desc f xs = sort_key (\<lambda>x. - f x) xs"

text \<open>
  A list comprehension one of whose elements raises, raises: \<open>collect\<close> returns the first
  error of the list, or all the values.
\<close>

fun collect :: "('e + 'a) list \<Rightarrow> 'e + 'a list" where
  "collect [] = Inr []"
| "collect (x # xs) =
     (case x of
        Inl e \<Rightarrow> Inl e
      | Inr v \<Rightarrow> (case collect xs of Inl e \<Rightarrow> Inl e | Inr vs \<Rightarrow> Inr (v # vs)))"


section \<open>Tax calculator (Core/analyzer/tax\_calculator.py)\<close>

text \<open>\<open>DEFAULT_TAX_RATES\<close> of config.py.\<close>

definition DEFAULT_TAX_RATES :: "(pystr, rat) pydict" where
  "DEFAULT_TAX_RATES =
     [(cp ''ip_simplified'', 3),
      (cp ''ip_general'', 10),
      (cp ''too_simplified'', 3),
      (cp ''too_general'', 20)]"

text \<open>The dict returned by \<open>calculate_tax\<close>; the field \<open>r_k\<close> is the key \<open>k\<close>.\<close>

record tax_result =
  r_tax_regime :: pystr
  r_tax_rate :: rat
  r_tax_base :: rat
  r_tax_amount :: rat
  r_effective_tax_rate :: rat
  r_income :: rat
  r_expense :: rat
  r_profit :: rat

definition calculate_tax :: "rat \<Rightarrow> rat \<Rightarrow> pystr \<Rightarrow> py_error + tax_result" where
  "calculate_tax income expense tax_regime =
     (let tax_rate = dict_get DEFAULT_TAX_RATES tax_regime 3;
          tax_base = (if tax_regime = cp ''ip_simplified'' \<or> tax_regime = cp ''too_simplified''
                      then income
                      else max 0 (income - expense))
      in case py_div tax_rate 100 of
           Inl e \<Rightarrow> Inl e
         | Inr fraction \<Rightarrow>
             (let tax_amount = tax_base * fraction
              in case (if income > 0
                       then (case py_div tax_amount income of
                               Inl e \<Rightarrow> Inl e
                             | Inr q \<Rightarrow> Inr (q * 100))
                       else Inr 0) of
                   Inl e \<Rightarrow> Inl e
                 | Inr effective_tax_rate \<Rightarrow>
                     Inr \<lparr> r_tax_regime = tax_regime,
                           r_tax_rate = tax_rate,
                           r_tax_base = tax_base,
                           r_tax_amount = tax_amount,
                           r_effective_tax_rate = effective_tax_rate,
                           r_income = income,
                           r_expense = expense,
                           r_profit = income - expense \<rparr>))"

text \<open>The four regimes that \<open>DEFAULT_TAX_RATES\<close> knows.\<close>

definition known_regimes :: "pystr list" where
  "known_regimes = map fst DEFAULT_TAX_RATES"


section \<open>Transactions\<close>

text \<open>
  A \<open>datetime\<close>; the time of day plays no part in this code.
\<close>

record datetime =
  dt_year :: nat
  dt_month :: nat
  dt_day :: nat

text \<open>
  A transaction is a dict; the field \<open>t_k\<close> is the key \<open>k\<close>, and \<open>None\<close> is a missing key, so
  that \<open>t.get(k, v)\<close> is \<open>case t_k t of None \<Rightarrow> v | Some x \<Rightarrow> x\<close>. The values are of the types
  the parsers store: a \<open>datetime\<close>, a \<open>str\<close>, a \<open>float\<close>, a \<open>bool\<close>. For \<open>date\<close>, \<open>None\<close> also
  stands for a value that is not a \<open>datetime\<close>; for \<open>reference\<close>, for the value \<open>None\<close>.
\<close>

record txn =
  t_date :: "datetime option"
  t_description :: "pystr option"
  t_amount :: "rat option"
  t_is_income :: "bool option"
  t_reference :: "pystr option"
  t_category :: "pystr option"

text \<open>The fallback label, the Cyrillic word Drugoe ("other").\<close>

definition other_label :: pystr where
  "other_label = [0x414, 0x440, 0x443, 0x433, 0x43E, 0x435]"

text \<open>\<open>date.strftime("%Y-%m")\<close>: the key of a month is its year and its month.\<close>

definition strftime_Ym :: "datetime \<Rightarrow> nat \<times> nat" where
  "strftime_Ym d = (dt_year d, dt_month d)"


section \<open>Classification (categorize\_expenses, analyze\_income\_sources)\<close>

text \<open>One row of the breakdown: the label (key \<open>category\<close> or \<open>source\<close>), \<open>amount\<close>, \<open>percentage\<close>.\<close>

record share_row =
  s_label :: pystr
  s_amount :: rat
  s_percentage :: rat

text \<open>\<open>category_keywords\<close> of \<open>categorize_expenses\<close>, in the order of the dict literal.\<close>

definition category_keywords :: "(pystr \<times> pystr list) list" where
  "category_keywords =
     [
      ([0x410, 0x440, 0x435, 0x43D, 0x434, 0x430] \<comment> \<open>Arenda\<close>,
       [
         [0x430, 0x440, 0x435, 0x43D, 0x434, 0x430], \<comment> \<open>arenda\<close>
         [0x441, 0x44A, 0x435, 0x43C], \<comment> \<open>s`em\<close>
         cp ''rent'',
         [0x43D, 0x435, 0x434, 0x432, 0x438, 0x436, 0x438, 0x43C, 0x43E, 0x441, 0x442, 0x44C], \<comment> \<open>nedvizhimost`\<close>
         [0x43E, 0x444, 0x438, 0x441], \<comment> \<open>ofis\<close>
         [0x43F, 0x43E, 0x43C, 0x435, 0x449, 0x435, 0x43D, 0x438, 0x435] \<comment> \<open>pomeshchenie\<close>
       ]),
      ([0x41A, 0x43E, 0x43C, 0x43C, 0x443, 0x43D, 0x430, 0x43B, 0x44C, 0x43D, 0x44B, 0x435, 0x20, 0x443, 0x441, 0x43B, 0x443, 0x433, 0x438] \<comment> \<open>Kommunal`nye uslugi\<close>,
       [
         [0x43A, 0x43E, 0x43C, 0x43C, 0x443, 0x43D, 0x430, 0x43B, 0x44C, 0x43D, 0x44B, 0x435], \<comment> \<open>kommunal`nye\<close>
         [0x44D, 0x43B, 0x435, 0x43A, 0x442, 0x440, 0x438, 0x447, 0x435, 0x441, 0x442, 0x432, 0x43E], \<comment> \<open>elektrichestvo\<close>
         [0x432, 0x43E, 0x434, 0x430], \<comment> \<open>voda\<close>
         [0x433, 0x430, 0x437], \<comment> \<open>gaz\<close>
         [0x43E, 0x442, 0x43E, 0x43F, 0x43B, 0x435, 0x43D, 0x438, 0x435], \<comment> \<open>otoplenie\<close>
         cp ''utility'',
         [0x44D, 0x43B, 0x435, 0x43A, 0x442, 0x440, 0x43E, 0x44D, 0x43D, 0x435, 0x440, 0x433, 0x438, 0x44F], \<comment> \<open>elektroenergiya\<close>
         [0x436, 0x43A, 0x445], \<comment> \<open>zhkh\<close>
         [0x43A, 0x432, 0x430, 0x440, 0x442, 0x43F, 0x43B, 0x430, 0x442, 0x430] \<comment> \<open>kvartplata\<close>
       ]),
      ([0x417, 0x430, 0x440, 0x43F, 0x43B, 0x430, 0x442, 0x430] \<comment> \<open>Zarplata\<close>,
       [
         [0x437, 0x430, 0x440, 0x43F, 0x43B, 0x430, 0x442, 0x430], \<comment> \<open>zarplata\<close>
         [0x43E, 0x43A, 0x43B, 0x430, 0x434], \<comment> \<open>oklad\<close>
         [0x430, 0x432, 0x430, 0x43D, 0x441], \<comment> \<open>avans\<close>
         [0x437, 0x430, 0x440, 0x430, 0x431, 0x43E, 0x442, 0x43D, 0x430, 0x44F, 0x20, 0x43F, 0x43B, 0x430, 0x442, 0x430], \<comment> \<open>zarabotnaya plata\<close>
         [0x432, 0x43E, 0x437, 0x43D, 0x430, 0x433, 0x440, 0x430, 0x436, 0x434, 0x435, 0x43D, 0x438, 0x435], \<comment> \<open>voznagrazhdenie\<close>
         [0x43F, 0x43B, 0x430, 0x442, 0x435, 0x436], \<comment> \<open>platezh\<close>
         [0x441, 0x43E, 0x442, 0x440, 0x443, 0x434, 0x43D, 0x438, 0x43A], \<comment> \<open>sotrudnik\<close>
         [0x437, 0x43F], \<comment> \<open>zp\<close>
         [0x437, 0x2F, 0x43F], \<comment> \<open>z/p\<close>
         [0x43E, 0x43F, 0x43B, 0x430, 0x442, 0x430, 0x20, 0x442, 0x440, 0x443, 0x434, 0x430], \<comment> \<open>oplata truda\<close>
         cp ''salary'',
         cp ''wage''
       ]),
      ([0x41D, 0x430, 0x43B, 0x43E, 0x433, 0x438] \<comment> \<open>Nalogi\<close>,
       [
         [0x43D, 0x430, 0x43B, 0x43E, 0x433], \<comment> \<open>nalog\<close>
         cp ''tax'',
         [0x441, 0x431, 0x43E, 0x440], \<comment> \<open>sbor\<close>
         [0x43F, 0x43E, 0x448, 0x43B, 0x438, 0x43D, 0x430], \<comment> \<open>poshlina\<close>
         [0x432, 0x437, 0x43D, 0x43E, 0x441], \<comment> \<open>vznos\<close>
         [0x43D, 0x434, 0x441], \<comment> \<open>nds\<close>
         [0x43F, 0x43E, 0x434, 0x43E, 0x445, 0x43E, 0x434, 0x43D, 0x44B, 0x439], \<comment> \<open>podohodnyj\<close>
         [0x435, 0x43D, 0x432, 0x434], \<comment> \<open>envd\<close>
         [0x443, 0x441, 0x43D], \<comment> \<open>usn\<close>
         [0x43D, 0x430, 0x43B, 0x43E, 0x433, 0x20, 0x43D, 0x430, 0x20, 0x438, 0x43C, 0x443, 0x449, 0x435, 0x441, 0x442, 0x432, 0x43E], \<comment> \<open>nalog na imushchestvo\<close>
         [0x43D, 0x434, 0x444, 0x43B], \<comment> \<open>ndfl\<close>
         [0x43D, 0x430, 0x43B, 0x43E, 0x433, 0x43E, 0x432, 0x430, 0x44F] \<comment> \<open>nalogovaya\<close>
       ]),
      ([0x421, 0x432, 0x44F, 0x437, 0x44C, 0x20, 0x438, 0x20, 0x438, 0x43D, 0x442, 0x435, 0x440, 0x43D, 0x435, 0x442] \<comment> \<open>Svyaz` i internet\<close>,
       [
         [0x442, 0x435, 0x43B, 0x435, 0x444, 0x43E, 0x43D], \<comment> \<open>telefon\<close>
         [0x43C, 0x43E, 0x431, 0x438, 0x43B, 0x44C, 0x43D, 0x44B, 0x439], \<comment> \<open>mobil`nyj\<close>
         [0x438, 0x43D, 0x442, 0x435, 0x440, 0x43D, 0x435, 0x442], \<comment> \<open>internet\<close>
         [0x441, 0x432, 0x44F, 0x437, 0x44C], \<comment> \<open>svyaz`\<close>
         [0x442, 0x435, 0x43B, 0x435, 0x43A, 0x43E, 0x43C], \<comment> \<open>telekom\<close>
         [0x431, 0x438, 0x43B, 0x430, 0x439, 0x43D], \<comment> \<open>bilajn\<close>
         [0x43C, 0x442, 0x441], \<comment> \<open>mts\<close>
         [0x43C, 0x435, 0x433, 0x430, 0x444, 0x43E, 0x43D], \<comment> \<open>megafon\<close>
         [0x442, 0x435, 0x43B, 0x435, 0x32], \<comment> \<open>tele2\<close>
         cp ''beeline'',
         cp ''telephone'',
         cp ''internet'',
         [0x441, 0x43E, 0x442, 0x43E, 0x432, 0x44B, 0x439], \<comment> \<open>sotovyj\<close>
         [0x440, 0x43E, 0x443, 0x442, 0x435, 0x440], \<comment> \<open>router\<close>
         [0x445, 0x43E, 0x441, 0x442, 0x438, 0x43D, 0x433], \<comment> \<open>hosting\<close>
         cp ''domain''
       ]),
      ([0x41A, 0x430, 0x43D, 0x446, 0x435, 0x43B, 0x44F, 0x440, 0x441, 0x43A, 0x438, 0x435, 0x20, 0x442, 0x43E, 0x432, 0x430, 0x440, 0x44B] \<comment> \<open>Kancelyarskie tovary\<close>,
       [
         [0x43A, 0x430, 0x43D, 0x446, 0x435, 0x43B, 0x44F, 0x440, 0x438, 0x44F], \<comment> \<open>kancelyariya\<close>
         [0x43A, 0x430, 0x43D, 0x446, 0x442, 0x43E, 0x432, 0x430, 0x440, 0x44B], \<comment> \<open>kanctovary\<close>
         [0x431, 0x443, 0x43C, 0x430, 0x433, 0x430], \<comment> \<open>bumaga\<close>
         [0x440, 0x443, 0x447, 0x43A, 0x438], \<comment> \<open>ruchki\<close>
         cp ''office supplies'',
         [0x43A, 0x430, 0x43D, 0x446], \<comment> \<open>kanc\<close>
         [0x43F, 0x435, 0x447, 0x430, 0x442, 0x44C], \<comment> \<open>pechat`\<close>
         [0x43F, 0x440, 0x438, 0x43D, 0x442, 0x435, 0x440], \<comment> \<open>printer\<close>
         [0x437, 0x430, 0x43F, 0x440, 0x430, 0x432, 0x43A, 0x430, 0x20, 0x43A, 0x430, 0x440, 0x442, 0x440, 0x438, 0x434, 0x436, 0x430], \<comment> \<open>zapravka kartridzha\<close>
         [0x442, 0x43E, 0x43D, 0x435, 0x440], \<comment> \<open>toner\<close>
         [0x43A, 0x430, 0x440, 0x442, 0x440, 0x438, 0x434, 0x436] \<comment> \<open>kartridzh\<close>
       ]),
      ([0x422, 0x440, 0x430, 0x43D, 0x441, 0x43F, 0x43E, 0x440, 0x442, 0x43D, 0x44B, 0x435, 0x20, 0x440, 0x430, 0x441, 0x445, 0x43E, 0x434, 0x44B] \<comment> \<open>Transportnye rashody\<close>,
       [
         [0x442, 0x440, 0x430, 0x43D, 0x441, 0x43F, 0x43E, 0x440, 0x442], \<comment> \<open>transport\<close>
         [0x442, 0x430, 0x43A, 0x441, 0x438], \<comment> \<open>taksi\<close>
         [0x43F, 0x440, 0x43E, 0x435, 0x437, 0x434], \<comment> \<open>proezd\<close>
         [0x434, 0x43E, 0x441, 0x442, 0x430, 0x432, 0x43A, 0x430], \<comment> \<open>dostavka\<close>
         cp ''transport'',
         [0x44F, 0x43D, 0x434, 0x435, 0x43A, 0x441, 0x20, 0x442, 0x430, 0x43A, 0x441, 0x438], \<comment> \<open>yandeks taksi\<close>
         cp ''uber'',
         [0x443, 0x431, 0x435, 0x440], \<comment> \<open>uber\<close>
         [0x43F, 0x435, 0x440, 0x435, 0x432, 0x43E, 0x437, 0x43A, 0x430], \<comment> \<open>perevozka\<close>
         [0x43B, 0x43E, 0x433, 0x438, 0x441, 0x442, 0x438, 0x43A, 0x430], \<comment> \<open>logistika\<close>
         [0x442, 0x43E, 0x43F, 0x43B, 0x438, 0x432, 0x43E], \<comment> \<open>toplivo\<close>
         [0x431, 0x435, 0x43D, 0x437, 0x438, 0x43D], \<comment> \<open>benzin\<close>
         [0x434, 0x438, 0x437, 0x435, 0x43B, 0x44C], \<comment> \<open>dizel`\<close>
         [0x433, 0x441, 0x43C] \<comment> \<open>gsm\<close>
       ]),
      ([0x41C, 0x430, 0x440, 0x43A, 0x435, 0x442, 0x438, 0x43D, 0x433, 0x20, 0x438, 0x20, 0x440, 0x435, 0x43A, 0x43B, 0x430, 0x43C, 0x430] \<comment> \<open>Marketing i reklama\<close>,
       [
         [0x440, 0x435, 0x43A, 0x43B, 0x430, 0x43C, 0x430], \<comment> \<open>reklama\<close>
         [0x43C, 0x430, 0x440, 0x43A, 0x435, 0x442, 0x438, 0x43D, 0x433], \<comment> \<open>marketing\<close>
         [0x43F, 0x440, 0x43E, 0x434, 0x432, 0x438, 0x436, 0x435, 0x43D, 0x438, 0x435], \<comment> \<open>prodvizhenie\<close>
         cp ''advertising'',
         cp ''marketing'',
         [0x440, 0x435, 0x43A, 0x43B, 0x430, 0x43C, 0x430], \<comment> \<open>reklama\<close>
         cp ''smm'',
         [0x43F, 0x438, 0x430, 0x440], \<comment> \<open>piar\<close>
         cp ''pr'',
         [0x43A, 0x43E, 0x43D, 0x442, 0x435, 0x43A, 0x441, 0x442], \<comment> \<open>kontekst\<close>
         [0x442, 0x430, 0x440, 0x433, 0x435, 0x442], \<comment> \<open>target\<close>
         cp ''target'',
         [0x440, 0x435, 0x43A, 0x43B, 0x430, 0x43C, 0x43D, 0x430, 0x44F, 0x20, 0x43A, 0x430, 0x43C, 0x43F, 0x430, 0x43D, 0x438, 0x44F], \<comment> \<open>reklamnaya kampaniya\<close>
         [0x440, 0x435, 0x43A, 0x43B, 0x430, 0x43C, 0x43D, 0x44B, 0x439], \<comment> \<open>reklamnyj\<close>
         [0x440, 0x430, 0x437, 0x43C, 0x435, 0x449, 0x435, 0x43D, 0x438, 0x435, 0x20, 0x440, 0x435, 0x43A, 0x43B, 0x430, 0x43C, 0x44B] \<comment> \<open>razmeshchenie reklamy\<close>
       ]),
      ([0x417, 0x430, 0x43A, 0x443, 0x43F, 0x43A, 0x430, 0x20, 0x442, 0x43E, 0x432, 0x430, 0x440, 0x43E, 0x432] \<comment> \<open>Zakupka tovarov\<close>,
       [
         [0x442, 0x43E, 0x432, 0x430, 0x440], \<comment> \<open>tovar\<close>
         [0x437, 0x430, 0x43A, 0x443, 0x43F, 0x43A, 0x430], \<comment> \<open>zakupka\<close>
         [0x43F, 0x43E, 0x441, 0x442, 0x430, 0x432, 0x43A, 0x430], \<comment> \<open>postavka\<close>
         [0x437, 0x430, 0x43F, 0x430, 0x441, 0x44B], \<comment> \<open>zapasy\<close>
         cp ''supply'',
         cp ''purchase'',
         [0x437, 0x430, 0x43A, 0x443, 0x43F], \<comment> \<open>zakup\<close>
         [0x43F, 0x43E, 0x441, 0x442, 0x430, 0x432, 0x449, 0x438, 0x43A], \<comment> \<open>postavshchik\<close>
         [0x43E, 0x43F, 0x442], \<comment> \<open>opt\<close>
         cp ''wholesale'',
         [0x43E, 0x43F, 0x442, 0x43E, 0x432, 0x44B, 0x439], \<comment> \<open>optovyj\<close>
         [0x43C, 0x430, 0x442, 0x435, 0x440, 0x438, 0x430, 0x43B, 0x44B], \<comment> \<open>materialy\<close>
         [0x441, 0x44B, 0x440, 0x44C, 0x451], \<comment> \<open>syr`yo\<close>
         [0x441, 0x44B, 0x440, 0x44C, 0x435], \<comment> \<open>syr`e\<close>
         [0x43F, 0x430, 0x440, 0x442, 0x438, 0x44F, 0x20, 0x442, 0x43E, 0x432, 0x430, 0x440, 0x430] \<comment> \<open>partiya tovara\<close>
       ]),
      ([0x41F, 0x440, 0x43E, 0x433, 0x440, 0x430, 0x43C, 0x43C, 0x43D, 0x43E, 0x435, 0x20, 0x43E, 0x431, 0x435, 0x441, 0x43F, 0x435, 0x447, 0x435, 0x43D, 0x438, 0x435] \<comment> \<open>Programmnoe obespechenie\<close>,
       [
         [0x43F, 0x440, 0x43E, 0x433, 0x440, 0x430, 0x43C, 0x43C, 0x43D, 0x43E, 0x435, 0x20, 0x43E, 0x431, 0x435, 0x441, 0x43F, 0x435, 0x447, 0x435, 0x43D, 0x438, 0x435], \<comment> \<open>programmnoe obespechenie\<close>
         cp ''software'',
         [0x441, 0x43E, 0x444, 0x442], \<comment> \<open>soft\<close>
         [0x43B, 0x438, 0x446, 0x435, 0x43D, 0x437, 0x438, 0x44F], \<comment> \<open>licenziya\<close>
         cp ''license'',
         [0x43F, 0x43E, 0x434, 0x43F, 0x438, 0x441, 0x43A, 0x430], \<comment> \<open>podpiska\<close>
         cp ''subscription'',
         [0x43E, 0x431, 0x43B, 0x430, 0x43A, 0x43E], \<comment> \<open>oblako\<close>
         cp ''cloud'',
         cp ''saas'',
         [0x441, 0x435, 0x440, 0x432, 0x438, 0x441], \<comment> \<open>servis\<close>
         [0x43F, 0x440, 0x43E, 0x434, 0x43B, 0x435, 0x43D, 0x438, 0x435], \<comment> \<open>prodlenie\<close>
         cp ''renewal''
       ]),
      ([0x41E, 0x431, 0x43E, 0x440, 0x443, 0x434, 0x43E, 0x432, 0x430, 0x43D, 0x438, 0x435] \<comment> \<open>Oborudovanie\<close>,
       [
         [0x43E, 0x431, 0x43E, 0x440, 0x443, 0x434, 0x43E, 0x432, 0x430, 0x43D, 0x438, 0x435], \<comment> \<open>oborudovanie\<close>
         [0x43A, 0x43E, 0x43C, 0x43F, 0x44C, 0x44E, 0x442, 0x435, 0x440], \<comment> \<open>komp`yuter\<close>
         [0x43D, 0x43E, 0x443, 0x442, 0x431, 0x443, 0x43A], \<comment> \<open>noutbuk\<close>
         [0x43F, 0x440, 0x438, 0x43D, 0x442, 0x435, 0x440], \<comment> \<open>printer\<close>
         cp ''hardware'',
         [0x443, 0x441, 0x442, 0x440, 0x43E, 0x439, 0x441, 0x442, 0x432, 0x43E], \<comment> \<open>ustrojstvo\<close>
         [0x442, 0x435, 0x445, 0x43D, 0x438, 0x43A, 0x430], \<comment> \<open>tehnika\<close>
         cp ''equipment'',
         [0x43C, 0x43E, 0x43D, 0x438, 0x442, 0x43E, 0x440], \<comment> \<open>monitor\<close>
         [0x441, 0x435, 0x440, 0x432, 0x435, 0x440], \<comment> \<open>server\<close>
         [0x443, 0x441, 0x442, 0x440, 0x43E, 0x439, 0x441, 0x442, 0x432, 0x43E], \<comment> \<open>ustrojstvo\<close>
         [0x433, 0x430, 0x434, 0x436, 0x435, 0x442], \<comment> \<open>gadzhet\<close>
         [0x43E, 0x440, 0x433, 0x442, 0x435, 0x445, 0x43D, 0x438, 0x43A, 0x430] \<comment> \<open>orgtehnika\<close>
       ]),
      ([0x41E, 0x431, 0x443, 0x447, 0x435, 0x43D, 0x438, 0x435, 0x20, 0x438, 0x20, 0x440, 0x430, 0x437, 0x432, 0x438, 0x442, 0x438, 0x435] \<comment> \<open>Obuchenie i razvitie\<close>,
       [
         [0x43E, 0x431, 0x443, 0x447, 0x435, 0x43D, 0x438, 0x435], \<comment> \<open>obuchenie\<close>
         [0x43A, 0x443, 0x440, 0x441], \<comment> \<open>kurs\<close>
         [0x442, 0x440, 0x435, 0x43D, 0x438, 0x43D, 0x433], \<comment> \<open>trening\<close>
         [0x441, 0x435, 0x43C, 0x438, 0x43D, 0x430, 0x440], \<comment> \<open>seminar\<close>
         cp ''education'',
         cp ''training'',
         [0x43F, 0x43E, 0x432, 0x44B, 0x448, 0x435, 0x43D, 0x438, 0x435, 0x20, 0x43A, 0x432, 0x430, 0x43B, 0x438, 0x444, 0x438, 0x43A, 0x430, 0x446, 0x438, 0x438], \<comment> \<open>povyshenie kvalifikacii\<close>
         cp ''development'',
         cp ''conference'',
         [0x43A, 0x43E, 0x43D, 0x444, 0x435, 0x440, 0x435, 0x43D, 0x446, 0x438, 0x44F], \<comment> \<open>konferenciya\<close>
         [0x432, 0x435, 0x431, 0x438, 0x43D, 0x430, 0x440], \<comment> \<open>vebinar\<close>
         [0x43C, 0x430, 0x441, 0x442, 0x435, 0x440, 0x2D, 0x43A, 0x43B, 0x430, 0x441, 0x441], \<comment> \<open>master-klass\<close>
         cp ''workshop''
       ]),
      ([0x41F, 0x438, 0x442, 0x430, 0x43D, 0x438, 0x435] \<comment> \<open>Pitanie\<close>,
       [
         [0x43F, 0x438, 0x442, 0x430, 0x43D, 0x438, 0x435], \<comment> \<open>pitanie\<close>
         [0x435, 0x434, 0x430], \<comment> \<open>eda\<close>
         [0x43F, 0x440, 0x43E, 0x434, 0x443, 0x43A, 0x442, 0x44B], \<comment> \<open>produkty\<close>
         cp ''food'',
         [0x43E, 0x431, 0x435, 0x434], \<comment> \<open>obed\<close>
         [0x440, 0x435, 0x441, 0x442, 0x43E, 0x440, 0x430, 0x43D], \<comment> \<open>restoran\<close>
         [0x43A, 0x430, 0x444, 0x435], \<comment> \<open>kafe\<close>
         [0x441, 0x442, 0x43E, 0x43B, 0x43E, 0x432, 0x430, 0x44F], \<comment> \<open>stolovaya\<close>
         [0x43F, 0x435, 0x440, 0x435, 0x43A, 0x443, 0x441], \<comment> \<open>perekus\<close>
         cp ''lunch'',
         [0x43A, 0x43E, 0x444, 0x435], \<comment> \<open>kofe\<close>
         cp ''coffee'',
         cp ''meal'',
         [0x443, 0x436, 0x438, 0x43D], \<comment> \<open>uzhin\<close>
         [0x437, 0x430, 0x432, 0x442, 0x440, 0x430, 0x43A] \<comment> \<open>zavtrak\<close>
       ]),
      ([0x41F, 0x440, 0x435, 0x434, 0x441, 0x442, 0x430, 0x432, 0x438, 0x442, 0x435, 0x43B, 0x44C, 0x441, 0x43A, 0x438, 0x435, 0x20, 0x440, 0x430, 0x441, 0x445, 0x43E, 0x434, 0x44B] \<comment> \<open>Predstavitel`skie rashody\<close>,
       [
         [0x43F, 0x440, 0x435, 0x434, 0x441, 0x442, 0x430, 0x432, 0x438, 0x442, 0x435, 0x43B, 0x44C, 0x441, 0x43A, 0x438, 0x435], \<comment> \<open>predstavitel`skie\<close>
         [0x434, 0x435, 0x43B, 0x43E, 0x432, 0x430, 0x44F, 0x20, 0x432, 0x441, 0x442, 0x440, 0x435, 0x447, 0x430], \<comment> \<open>delovaya vstrecha\<close>
         cp ''business meeting'',
         [0x43A, 0x43B, 0x438, 0x435, 0x43D, 0x442], \<comment> \<open>klient\<close>
         [0x43F, 0x435, 0x440, 0x435, 0x433, 0x43E, 0x432, 0x43E, 0x440, 0x44B], \<comment> \<open>peregovory\<close>
         [0x440, 0x435, 0x441, 0x442, 0x43E, 0x440, 0x430, 0x43D], \<comment> \<open>restoran\<close>
         [0x431, 0x430, 0x43D, 0x43A, 0x435, 0x442], \<comment> \<open>banket\<close>
         cp ''entertainment'',
         [0x43C, 0x435, 0x440, 0x43E, 0x43F, 0x440, 0x438, 0x44F, 0x442, 0x438, 0x435], \<comment> \<open>meropriyatie\<close>
         cp ''event'',
         cp ''hospitality''
       ])
     ]"

text \<open>\<open>source_keywords\<close> of \<open>analyze_income_sources\<close>.\<close>

definition source_keywords :: "(pystr \<times> pystr list) list" where
  "source_keywords =
     [
      ([0x417, 0x430, 0x440, 0x430, 0x431, 0x43E, 0x442, 0x43D, 0x430, 0x44F, 0x20, 0x43F, 0x43B, 0x430, 0x442, 0x430] \<comment> \<open>Zarabotnaya plata\<close>,
       [
         [0x437, 0x430, 0x440, 0x43F, 0x43B, 0x430, 0x442, 0x430], \<comment> \<open>zarplata\<close>
         [0x437, 0x430, 0x440, 0x430, 0x431, 0x43E, 0x442, 0x43D, 0x430, 0x44F, 0x20, 0x43F, 0x43B, 0x430, 0x442, 0x430], \<comment> \<open>zarabotnaya plata\<close>
         [0x43E, 0x43A, 0x43B, 0x430, 0x434], \<comment> \<open>oklad\<close>
         [0x430, 0x432, 0x430, 0x43D, 0x441], \<comment> \<open>avans\<close>
         [0x437, 0x43F, 0x20], \<comment> \<open>zp \<close>
         [0x437, 0x2F, 0x43F], \<comment> \<open>z/p\<close>
         [0x432, 0x44B, 0x43F, 0x43B, 0x430, 0x442, 0x430], \<comment> \<open>vyplata\<close>
         [0x437, 0x430, 0x440, 0x2E, 0x43F, 0x43B, 0x430, 0x442, 0x430], \<comment> \<open>zar.plata\<close>
         [0x437, 0x430, 0x440, 0x20, 0x43F, 0x43B, 0x430, 0x442, 0x430], \<comment> \<open>zar plata\<close>
         cp ''salary'',
         cp ''wage'',
         cp ''payroll''
       ]),
      ([0x41F, 0x435, 0x440, 0x435, 0x432, 0x43E, 0x434] \<comment> \<open>Perevod\<close>,
       [
         [0x43F, 0x435, 0x440, 0x435, 0x432, 0x43E, 0x434], \<comment> \<open>perevod\<close>
         cp ''transfer'',
         [0x43F, 0x435, 0x440, 0x435, 0x432, 0x435, 0x434, 0x435, 0x43D, 0x43E], \<comment> \<open>perevedeno\<close>
         [0x43F, 0x43E, 0x441, 0x442, 0x443, 0x43F, 0x43B, 0x435, 0x43D, 0x438, 0x435], \<comment> \<open>postuplenie\<close>
         [0x437, 0x430, 0x447, 0x438, 0x441, 0x43B, 0x435, 0x43D, 0x438, 0x435], \<comment> \<open>zachislenie\<close>
         cp ''p2p'',
         [0x43F, 0x435, 0x440, 0x435, 0x432, 0x43E, 0x434, 0x20, 0x43E, 0x442] \<comment> \<open>perevod ot\<close>
       ]),
      ([0x412, 0x43E, 0x437, 0x432, 0x440, 0x430, 0x442] \<comment> \<open>Vozvrat\<close>,
       [
         [0x432, 0x43E, 0x437, 0x432, 0x440, 0x430, 0x442], \<comment> \<open>vozvrat\<close>
         cp ''refund'',
         [0x432, 0x43E, 0x437, 0x43C, 0x435, 0x449, 0x435, 0x43D, 0x438, 0x435], \<comment> \<open>vozmeshchenie\<close>
         [0x43A, 0x43E, 0x43C, 0x43F, 0x435, 0x43D, 0x441, 0x430, 0x446, 0x438, 0x44F], \<comment> \<open>kompensaciya\<close>
         cp ''reimbursement'',
         cp ''return''
       ]),
      ([0x41F, 0x440, 0x43E, 0x434, 0x430, 0x436, 0x430, 0x20, 0x442, 0x43E, 0x432, 0x430, 0x440, 0x43E, 0x432] \<comment> \<open>Prodazha tovarov\<close>,
       [
         [0x43F, 0x440, 0x43E, 0x434, 0x430, 0x436, 0x430], \<comment> \<open>prodazha\<close>
         [0x442, 0x43E, 0x432, 0x430, 0x440], \<comment> \<open>tovar\<close>
         cp ''sale'',
         [0x442, 0x43E, 0x440, 0x433, 0x43E, 0x432, 0x43B, 0x44F], \<comment> \<open>torgovlya\<close>
         [0x440, 0x435, 0x430, 0x43B, 0x438, 0x437, 0x430, 0x446, 0x438, 0x44F], \<comment> \<open>realizaciya\<close>
         [0x432, 0x44B, 0x440, 0x443, 0x447, 0x43A, 0x430], \<comment> \<open>vyruchka\<close>
         [0x442, 0x43E, 0x432, 0x430, 0x440] \<comment> \<open>tovar\<close>
       ]),
      ([0x41E, 0x43A, 0x430, 0x437, 0x430, 0x43D, 0x438, 0x435, 0x20, 0x443, 0x441, 0x43B, 0x443, 0x433] \<comment> \<open>Okazanie uslug\<close>,
       [
         [0x443, 0x441, 0x43B, 0x443, 0x433, 0x438], \<comment> \<open>uslugi\<close>
         [0x441, 0x435, 0x440, 0x432, 0x438, 0x441], \<comment> \<open>servis\<close>
         cp ''service'',
         [0x440, 0x430, 0x431, 0x43E, 0x442, 0x44B], \<comment> \<open>raboty\<close>
         [0x43A, 0x43E, 0x43D, 0x441, 0x443, 0x43B, 0x44C, 0x442, 0x430, 0x446, 0x438, 0x44F], \<comment> \<open>konsul`taciya\<close>
         [0x440, 0x430, 0x437, 0x440, 0x430, 0x431, 0x43E, 0x442, 0x43A, 0x430], \<comment> \<open>razrabotka\<close>
         [0x432, 0x44B, 0x43F, 0x43E, 0x43B, 0x43D, 0x435, 0x43D, 0x438, 0x435] \<comment> \<open>vypolnenie\<close>
       ]),
      ([0x418, 0x43D, 0x432, 0x435, 0x441, 0x442, 0x438, 0x446, 0x438, 0x438] \<comment> \<open>Investicii\<close>,
       [
         [0x434, 0x438, 0x432, 0x438, 0x434, 0x435, 0x43D, 0x434], \<comment> \<open>dividend\<close>
         [0x43F, 0x440, 0x43E, 0x446, 0x435, 0x43D, 0x442, 0x44B], \<comment> \<open>procenty\<close>
         [0x432, 0x43A, 0x43B, 0x430, 0x434], \<comment> \<open>vklad\<close>
         [0x434, 0x435, 0x43F, 0x43E, 0x437, 0x438, 0x442], \<comment> \<open>depozit\<close>
         [0x438, 0x43D, 0x432, 0x435, 0x441, 0x442, 0x438, 0x446, 0x438, 0x438], \<comment> \<open>investicii\<close>
         cp ''dividend'',
         cp ''interest'',
         cp ''investment'',
         [0x434, 0x43E, 0x445, 0x43E, 0x434, 0x20, 0x43F, 0x43E], \<comment> \<open>dohod po\<close>
         [0x43A, 0x443, 0x43F, 0x43E, 0x43D] \<comment> \<open>kupon\<close>
       ]),
      ([0x41A, 0x44D, 0x448, 0x431, 0x44D, 0x43A] \<comment> \<open>Keshbek\<close>,
       [
         [0x43A, 0x44D, 0x448, 0x431, 0x44D, 0x43A], \<comment> \<open>keshbek\<close>
         cp ''cashback'',
         [0x43A, 0x435, 0x448, 0x431, 0x44D, 0x43A], \<comment> \<open>keshbek\<close>
         [0x43A, 0x44D, 0x448, 0x431, 0x435, 0x43A], \<comment> \<open>keshbek\<close>
         [0x432, 0x43E, 0x437, 0x432, 0x440, 0x430, 0x442, 0x20, 0x25], \<comment> \<open>vozvrat %\<close>
         [0x432, 0x43E, 0x437, 0x432, 0x440, 0x430, 0x442, 0x20, 0x43F, 0x440, 0x43E, 0x446, 0x435, 0x43D, 0x442, 0x430], \<comment> \<open>vozvrat procenta\<close>
         [0x431, 0x43E, 0x43D, 0x443, 0x441] \<comment> \<open>bonus\<close>
       ])
     ]"

text \<open>
  The inner loop over the keywords of one label: at the first keyword found in the
  description the amount is added to the label, the flag is set and the loop breaks.
\<close>

fun scan_keywords ::
  "pystr list \<Rightarrow> pystr \<Rightarrow> pystr \<Rightarrow> rat \<Rightarrow> (pystr, rat) pydict \<Rightarrow> (pystr, rat) pydict \<times> bool" where
  "scan_keywords [] category description amount categories = (categories, False)"
| "scan_keywords (keyword # keywords) category description amount categories =
     (if py_in (py_lower keyword) description
      then (dict_add categories category amount, True)
      else scan_keywords keywords category description amount categories)"

text \<open>The outer loop over the labels, which breaks as soon as the flag is set.\<close>

fun scan_rules ::
  "(pystr \<times> pystr list) list \<Rightarrow> pystr \<Rightarrow> rat \<Rightarrow> (pystr, rat) pydict \<Rightarrow> (pystr, rat) pydict \<times> bool" where
  "scan_rules [] description amount categories = (categories, False)"
| "scan_rules ((category, keywords) # rules) description amount categories =
     (case scan_keywords keywords category description amount categories of
        (categories', category_found) \<Rightarrow>
          if category_found then (categories', True)
          else scan_rules rules description amount categories')"

text \<open>The body of the loop over the transactions.\<close>

definition classify_transaction ::
  "(pystr \<times> pystr list) list \<Rightarrow> (pystr, rat) pydict \<Rightarrow> txn \<Rightarrow> (pystr, rat) pydict" where
  "classify_transaction rules categories transaction =
     (let description = py_lower (case t_description transaction of None \<Rightarrow> [] | Some s \<Rightarrow> s);
          amount = (case t_amount transaction of None \<Rightarrow> 0 | Some a \<Rightarrow> a)
      in case scan_rules rules description amount categories of
           (categories', category_found) \<Rightarrow>
             if \<not> category_found then dict_add categories' other_label amount else categories')"

text \<open>
  The percentage of one row: the sum of the values is recomputed for each row. Here, as
  in all of this section and the next, the arithmetic is exact; the same computation in
  double precision is \<open>percentage_rounded\<close> below.
\<close>

definition percentage :: "(pystr, rat) pydict \<Rightarrow> rat \<Rightarrow> py_error + rat" where
  "percentage categories amount =
     (if sum_values categories > 0
      then (case py_div amount (sum_values categories) of
              Inl e \<Rightarrow> Inl e
            | Inr q \<Rightarrow> Inr (q * 100))
      else Inr 0)"

text \<open>The list comprehension that both functions return.\<close>

definition breakdown :: "(pystr, rat) pydict \<Rightarrow> py_error + share_row list" where
  "breakdown categories =
     collect (map (\<lambda>(category, amount).
                     case percentage categories amount of
                       Inl e \<Rightarrow> Inl e
                     | Inr p \<Rightarrow> Inr \<lparr> s_label = category, s_amount = amount, s_percentage = p \<rparr>)
                  (sorted_desc snd categories))"

definition categorize_expenses :: "txn list \<Rightarrow> py_error + share_row list" where
  "categorize_expenses transactions =
     breakdown (foldl (classify_transaction category_keywords) [] transactions)"

definition analyze_income_sources :: "txn list \<Rightarrow> py_error + share_row list" where
  "analyze_income_sources transactions =
     breakdown (foldl (classify_transaction source_keywords) [] transactions)"


section \<open>Aggregation (analyze\_expenses, analyze\_income)\<close>

text \<open>
  The dict that both functions return; \<open>a_breakdown\<close> is the key \<open>categories\<close> of
  \<open>analyze_expenses\<close> and the key \<open>sources\<close> of \<open>analyze_income\<close>.
\<close>

record analysis =
  a_total :: rat
  a_count :: nat
  a_average :: rat
  a_by_category :: "(pystr, rat) pydict"
  a_by_month :: "(nat \<times> nat, rat) pydict"
  a_largest :: "txn option"
  a_smallest :: "txn option"
  a_breakdown :: "share_row list"

definition get_amount :: "txn \<Rightarrow> rat" where
  "get_amount t = (case t_amount t of None \<Rightarrow> 0 | Some a \<Rightarrow> a)"

definition empty_analysis :: analysis where
  "empty_analysis =
     \<lparr> a_total = 0, a_count = 0, a_average = 0, a_by_category = [], a_by_month = [],
       a_largest = None, a_smallest = None, a_breakdown = [] \<rparr>"

text \<open>
  Everything after the filter is the same in the two functions but for the classifier; it
  is written once, over the filtered list.
\<close>

definition summarize :: "(txn list \<Rightarrow> py_error + share_row list) \<Rightarrow> txn list \<Rightarrow> py_error + analysis" where
  "summarize classifier selected =
     (if selected = [] then Inr empty_analysis
      else
        let total = sum_list (map get_amount selected);
            count = length selected
        in case (if count > 0 then py_div total (of_nat count) else Inr 0) of
             Inl e \<Rightarrow> Inl e
           | Inr average \<Rightarrow>
               (let by_category =
                      foldl (\<lambda>d t. dict_add d (case t_category t of None \<Rightarrow> other_label | Some c \<Rightarrow> c)
                                              (get_amount t)) [] selected;
                    by_month =
                      foldl (\<lambda>d t. case t_date t of
                                      None \<Rightarrow> d
                                    | Some date \<Rightarrow> dict_add d (strftime_Ym date) (get_amount t)) [] selected;
                    sorted_transactions = sorted_desc get_amount selected;
                    largest_transaction =
                      (if sorted_transactions \<noteq> [] then Some (hd sorted_transactions) else None);
                    smallest_transaction =
                      (if sorted_transactions \<noteq> [] then Some (last sorted_transactions) else None)
                in case classifier selected of
                     Inl e \<Rightarrow> Inl e
                   | Inr rows \<Rightarrow>
                       Inr \<lparr> a_total = total,
                             a_count = count,
                             a_average = average,
                             a_by_category = by_category,
                             a_by_month = by_month,
                             a_largest = largest_transaction,
                             a_smallest = smallest_transaction,
                             a_breakdown = rows \<rparr>))"

definition analyze_expenses :: "txn list \<Rightarrow> py_error + analysis" where
  "analyze_expenses transactions =
     (let expense_transactions =
            filter (\<lambda>t. \<not> (case t_is_income t of None \<Rightarrow> True | Some b \<Rightarrow> b)) transactions
      in summarize categorize_expenses expense_transactions)"

definition analyze_income :: "txn list \<Rightarrow> py_error + analysis" where
  "analyze_income transactions =
     (let income_transactions =
            filter (\<lambda>t. case t_is_income t of None \<Rightarrow> False | Some b \<Rightarrow> b) transactions
      in summarize analyze_income_sources income_transactions)"


section \<open>The classifier as the specification words it\<close>

text \<open>
  The specification's algorithm, for comparison with the loops above: a rule matches a
  lower-cased description when one of its keywords occurs in it as a substring; the label
  is that of the first matching rule in declaration order, or the fallback label.
\<close>

definition rule_matches :: "pystr \<Rightarrow> pystr \<times> pystr list \<Rightarrow> bool" where
  "rule_matches description rule = list_ex (\<lambda>keyword. py_in keyword description) (snd rule)"

definition first_matching_label :: "(pystr \<times> pystr list) list \<Rightarrow> pystr \<Rightarrow> pystr" where
  "first_matching_label rules description =
     (case find (rule_matches description) rules of
        None \<Rightarrow> other_label
      | Some rule \<Rightarrow> fst rule)"

text \<open>The row that the comprehension builds for one item of the dict.\<close>

definition share_of :: "(pystr, rat) pydict \<Rightarrow> pystr \<times> rat \<Rightarrow> share_row" where
  "share_of categories item =
     \<lparr> s_label = fst item, s_amount = snd item,
       s_percentage = (if sum_values categories > 0 then snd item / sum_values categories * 100 else 0) \<rparr>"


section \<open>Statement rows and the library the parsers call\<close>

text \<open>
  A cell of a row as the parsers read it: \<open>None\<close>, a \<open>str\<close>, a number (\<open>int\<close> or \<open>float\<close>) or a
  \<open>datetime\<close>. A number and a \<open>datetime\<close> carry the text that \<open>str()\<close> renders them as, which
  the code reads when such a cell stands in a description, type or reference column.
\<close>

datatype cell = CNone | CStr pystr | CNum rat pystr | CDate datetime pystr

type_synonym row = "(pystr, cell) pydict"

text \<open>The three formats that the parsers hand to \<open>strptime\<close>: \<open>%d.%m.%Y\<close>, \<open>%Y-%m-%d\<close>, \<open>%d/%m/%Y\<close>.\<close>

datatype date_format = DMY_dots | YMD_dashes | DMY_slashes

text \<open>
  The standard-library functions that the parsers call and whose behaviour is not part of
  this repository are parameters of the model: the code points that the regular expression
  class \<open>\d\<close> matches, those that \<open>str.strip\<close> removes, \<open>float(s)\<close> and \<open>datetime.strptime(s, f)\<close>,
  where \<open>None\<close> is the \<open>ValueError\<close> that the code catches.
\<close>

record pylib =
  lib_isdigit :: "nat \<Rightarrow> bool"
  lib_isspace :: "nat \<Rightarrow> bool"
  lib_float :: "pystr \<Rightarrow> rat option"
  lib_strptime :: "pystr \<Rightarrow> date_format \<Rightarrow> datetime option"

text \<open>Truthiness of a cell, \<open>str(v)\<close>, \<open>row.get(column)\<close>.\<close>

fun truthy :: "cell \<Rightarrow> bool" where
  "truthy CNone = False"
| "truthy (CStr s) = (s \<noteq> [])"
| "truthy (CNum n s) = (n \<noteq> 0)"
| "truthy (CDate d s) = True"

fun py_str :: "cell \<Rightarrow> pystr" where
  "py_str CNone = cp ''None''"
| "py_str (CStr s) = s"
| "py_str (CNum n s) = s"
| "py_str (CDate d s) = s"

definition row_get :: "row \<Rightarrow> pystr \<Rightarrow> cell" where
  "row_get r column = (case map_of r column of None \<Rightarrow> CNone | Some v \<Rightarrow> v)"

text \<open>\<open>any(keyword in s for keyword in keywords)\<close>.\<close>

definition any_in :: "pystr list \<Rightarrow> pystr \<Rightarrow> bool" where
  "any_in kws s = list_ex (\<lambda>keyword. py_in keyword s) kws"

text \<open>\<open>s.replace(',', '.')\<close>, \<open>s.replace(' ', '')\<close>, \<open>s.strip()\<close>.\<close>

definition replace_comma :: "pystr \<Rightarrow> pystr" where
  "replace_comma s = map (\<lambda>c. if c = 0x2C then 0x2E else c) s"

definition remove_spaces :: "pystr \<Rightarrow> pystr" where
  "remove_spaces s = filter (\<lambda>c. c \<noteq> 0x20) s"

definition py_strip :: "pylib \<Rightarrow> pystr \<Rightarrow> pystr" where
  "py_strip L s = rev (dropWhile (lib_isspace L) (rev (dropWhile (lib_isspace L) s)))"

text \<open>\<open>re.match(r'\d{2}\.\d{2}\.\d{4}', s)\<close>: the pattern is matched at the start of \<open>s\<close>.\<close>

definition re_match_date :: "pylib \<Rightarrow> pystr \<Rightarrow> bool" where
  "re_match_date L s =
     (10 \<le> length s
      \<and> lib_isdigit L (s ! 0) \<and> lib_isdigit L (s ! 1) \<and> s ! 2 = 0x2E
      \<and> lib_isdigit L (s ! 3) \<and> lib_isdigit L (s ! 4) \<and> s ! 5 = 0x2E
      \<and> lib_isdigit L (s ! 6) \<and> lib_isdigit L (s ! 7)
      \<and> lib_isdigit L (s ! 8) \<and> lib_isdigit L (s ! 9))"

text \<open>\<open>re.sub(r'[^\d.,]', '', s)\<close>.\<close>

definition re_sub_non_numeric :: "pylib \<Rightarrow> pystr \<Rightarrow> pystr" where
  "re_sub_non_numeric L s = filter (\<lambda>c. lib_isdigit L c \<or> c = 0x2E \<or> c = 0x2C) s"


section \<open>Kaspi Excel and CSV parsers (Core/parser/kaspi\_parser.py)\<close>

text \<open>The keyword lists of the header scan; the Cyrillic ones are transliterated beside.\<close>

definition date_header_keywords :: "pystr list" where
  "date_header_keywords = [[0x434, 0x430, 0x442, 0x430] \<comment> \<open>data\<close>, cp ''date'']"

definition description_header_keywords :: "pystr list" where
  "description_header_keywords =
     [[0x43E, 0x43F, 0x438, 0x441, 0x430, 0x43D, 0x438, 0x435], \<comment> \<open>opisanie\<close>
      [0x43D, 0x430, 0x437, 0x43D, 0x430, 0x447, 0x435, 0x43D, 0x438, 0x435], \<comment> \<open>naznachenie\<close>
      cp ''description'']"

definition amount_header_keywords :: "pystr list" where
  "amount_header_keywords = [[0x441, 0x443, 0x43C, 0x43C, 0x430] \<comment> \<open>summa\<close>, cp ''amount'']"

definition type_header_keywords :: "pystr list" where
  "type_header_keywords =
     [[0x442, 0x438, 0x43F], \<comment> \<open>tip\<close>
      cp ''type'',
      [0x43F, 0x440, 0x438, 0x445, 0x43E, 0x434], \<comment> \<open>prihod\<close>
      [0x440, 0x430, 0x441, 0x445, 0x43E, 0x434], \<comment> \<open>rashod\<close>
      [0x43E, 0x43F, 0x435, 0x440, 0x430, 0x446, 0x438, 0x44F] \<comment> \<open>operaciya\<close>]"

definition reference_header_keywords :: "pystr list" where
  "reference_header_keywords =
     [[0x440, 0x435, 0x444, 0x435, 0x440, 0x435, 0x43D, 0x441], \<comment> \<open>referens\<close>
      cp ''reference'',
      [0x43D, 0x43E, 0x43C, 0x435, 0x440] \<comment> \<open>nomer\<close>]"

text \<open>The keyword lists of the direction of a row.\<close>

definition income_type_keywords :: "pystr list" where
  "income_type_keywords =
     [[0x43F, 0x440, 0x438, 0x445, 0x43E, 0x434], \<comment> \<open>prihod\<close>
      [0x43F, 0x43E, 0x441, 0x442, 0x443, 0x43F, 0x43B, 0x435, 0x43D, 0x438, 0x435], \<comment> \<open>postuplenie\<close>
      cp ''income'',
      cp ''credit'',
      [0x437, 0x430, 0x447, 0x438, 0x441, 0x43B, 0x435, 0x43D, 0x438, 0x435] \<comment> \<open>zachislenie\<close>]"

definition expense_type_keywords :: "pystr list" where
  "expense_type_keywords =
     [[0x440, 0x430, 0x441, 0x445, 0x43E, 0x434], \<comment> \<open>rashod\<close>
      [0x441, 0x43F, 0x438, 0x441, 0x430, 0x43D, 0x438, 0x435], \<comment> \<open>spisanie\<close>
      cp ''expense'',
      cp ''debit'']"

text \<open>
  The five column variables; \<open>None\<close> is Python's \<open>None\<close>. \<open>col_set c\<close> is the truth value of a
  column variable in a condition: a name that is the empty string counts as false.
\<close>

record columns =
  date_column :: "pystr option"
  description_column :: "pystr option"
  amount_column :: "pystr option"
  type_column :: "pystr option"
  reference_column :: "pystr option"

definition no_columns :: columns where
  "no_columns =
     \<lparr> date_column = None, description_column = None, amount_column = None,
       type_column = None, reference_column = None \<rparr>"

definition col_set :: "pystr option \<Rightarrow> bool" where
  "col_set c = (case c of None \<Rightarrow> False | Some name \<Rightarrow> name \<noteq> [])"

text \<open>\<open>row.get(c)\<close> for a column variable that is set.\<close>

definition get_col :: "row \<Rightarrow> pystr option \<Rightarrow> cell" where
  "get_col r c = (case c of None \<Rightarrow> CNone | Some name \<Rightarrow> row_get r name)"

text \<open>The body of the loop over the column names of the first row.\<close>

definition scan_header :: "columns \<Rightarrow> pystr \<Rightarrow> columns" where
  "scan_header cols column =
     (let column_lower = py_lower column
      in \<lparr> date_column =
              (if any_in date_header_keywords column_lower then Some column
               else date_column cols),
            description_column =
              (if any_in description_header_keywords column_lower then Some column
               else description_column cols),
            amount_column =
              (if any_in amount_header_keywords column_lower then Some column
               else amount_column cols),
            type_column =
              (if any_in type_header_keywords column_lower then Some column
               else type_column cols),
            reference_column =
              (if any_in reference_header_keywords column_lower then Some column
               else reference_column cols) \<rparr>)"

definition scan_headers :: "row \<Rightarrow> columns" where
  "scan_headers first_row = foldl scan_header no_columns (map fst first_row)"

text \<open>Content sniffing, Excel: the body of the loop over the items of a row.\<close>

definition excel_sniff_item :: "pylib \<Rightarrow> columns \<Rightarrow> pystr \<times> cell \<Rightarrow> columns" where
  "excel_sniff_item L cols item =
     (let column = fst item;
          v = snd item;
          cols1 = (if \<not> col_set (date_column cols)
                      \<and> (case v of CStr s \<Rightarrow> re_match_date L s | _ \<Rightarrow> False)
                   then cols\<lparr> date_column := Some column \<rparr> else cols)
      in if \<not> col_set (amount_column cols1)
            \<and> (case v of CNum n s \<Rightarrow> n \<noteq> 0 | _ \<Rightarrow> False)
         then cols1\<lparr> amount_column := Some column \<rparr> else cols1)"

text \<open>
  Content sniffing, CSV: a \<open>str\<close> is also tried as a number, after its commas are turned
  into dots and its spaces are removed.
\<close>

definition csv_sniff_item :: "pylib \<Rightarrow> columns \<Rightarrow> pystr \<times> cell \<Rightarrow> columns" where
  "csv_sniff_item L cols item =
     (let column = fst item;
          v = snd item;
          cols1 = (if \<not> col_set (date_column cols)
                      \<and> (case v of CStr s \<Rightarrow> re_match_date L s | _ \<Rightarrow> False)
                   then cols\<lparr> date_column := Some column \<rparr> else cols)
      in if \<not> col_set (amount_column cols1)
            \<and> (case v of
                  CStr s \<Rightarrow> (case lib_float L (remove_spaces (replace_comma s)) of
                               None \<Rightarrow> False
                             | Some float_value \<Rightarrow> float_value \<noteq> 0)
                | CNum n s \<Rightarrow> n \<noteq> 0
                | _ \<Rightarrow> False)
         then cols1\<lparr> amount_column := Some column \<rparr> else cols1)"

text \<open>The loop over the rows, which breaks once both mandatory columns are known.\<close>

fun sniff_rows :: "(columns \<Rightarrow> pystr \<times> cell \<Rightarrow> columns) \<Rightarrow> row list \<Rightarrow> columns \<Rightarrow> columns" where
  "sniff_rows sniff_item [] cols = cols"
| "sniff_rows sniff_item (r # rows) cols =
     (let cols' = foldl sniff_item cols r
      in if col_set (date_column cols') \<and> col_set (amount_column cols') then cols'
         else sniff_rows sniff_item rows cols')"

text \<open>Both steps of the column identification: the header scan, then the sniffing.\<close>

definition identify_columns :: "(columns \<Rightarrow> pystr \<times> cell \<Rightarrow> columns) \<Rightarrow> row list \<Rightarrow> columns" where
  "identify_columns sniff_item data =
     (case data of
        [] \<Rightarrow> no_columns
      | first_row # _ \<Rightarrow>
          (let cols = scan_headers first_row
           in if \<not> (col_set (date_column cols) \<and> col_set (amount_column cols))
              then sniff_rows sniff_item data cols
              else cols))"

text \<open>The date of a row: a \<open>datetime\<close> as it is, a \<open>str\<close> by the first format that parses.\<close>

fun try_formats :: "pylib \<Rightarrow> pystr \<Rightarrow> date_format list \<Rightarrow> datetime option" where
  "try_formats L s [] = None"
| "try_formats L s (date_format # formats) =
     (case lib_strptime L s date_format of
        Some date \<Rightarrow> Some date
      | None \<Rightarrow> try_formats L s formats)"

definition parse_date :: "pylib \<Rightarrow> cell \<Rightarrow> datetime option" where
  "parse_date L date_value =
     (case date_value of
        CDate d s \<Rightarrow> Some d
      | CStr s \<Rightarrow> try_formats L s [DMY_dots, YMD_dashes, DMY_slashes]
      | _ \<Rightarrow> None)"

text \<open>The amount of a row; \<open>None\<close> is the \<open>ValueError\<close> of \<open>float\<close>, at which the row is skipped.\<close>

definition parse_amount :: "pylib \<Rightarrow> cell \<Rightarrow> rat option" where
  "parse_amount L amount_value =
     (case amount_value of
        CNum n s \<Rightarrow> Some n
      | CStr s \<Rightarrow> lib_float L (replace_comma (re_sub_non_numeric L s))
      | _ \<Rightarrow> Some 0)"

text \<open>The direction of a row and the amount that is stored with it.\<close>

definition resolve_direction :: "columns \<Rightarrow> row \<Rightarrow> rat \<Rightarrow> bool \<times> rat" where
  "resolve_direction cols r amount =
     (if col_set (type_column cols) \<and> truthy (get_col r (type_column cols))
      then (let type_value = py_lower (py_str (get_col r (type_column cols)));
                is_income = any_in income_type_keywords type_value
            in if any_in expense_type_keywords type_value then (False, amount)
               else (is_income, amount))
      else if amount < 0 then (False, abs amount)
      else (True, amount))"

text \<open>
  The body of the loop over the rows, the same in the two parsers; \<open>None\<close> is a row that is
  skipped. The key \<open>category_id\<close>, which is always \<open>None\<close>, is left out of the transaction.
\<close>

definition process_row :: "pylib \<Rightarrow> columns \<Rightarrow> row \<Rightarrow> txn option" where
  "process_row L cols r =
     (if \<not> truthy (get_col r (date_column cols)) \<or> \<not> truthy (get_col r (amount_column cols))
      then None
      else
        case parse_date L (get_col r (date_column cols)) of
          None \<Rightarrow> None
        | Some date \<Rightarrow>
            (let description =
                   (if col_set (description_column cols)
                       \<and> truthy (get_col r (description_column cols))
                    then py_str (get_col r (description_column cols)) else [])
             in case (if col_set (amount_column cols)
                      then parse_amount L (get_col r (amount_column cols)) else Some 0) of
                  None \<Rightarrow> None
                | Some amount0 \<Rightarrow>
                    (let direction = resolve_direction cols r amount0;
                         reference =
                           (if col_set (reference_column cols)
                               \<and> truthy (get_col r (reference_column cols))
                            then Some (py_str (get_col r (reference_column cols))) else None)
                     in Some \<lparr> t_date = Some date,
                               t_description = Some description,
                               t_amount = Some (snd direction),
                               t_is_income = Some (fst direction),
                               t_reference = reference,
                               t_category = None \<rparr>)))"

text \<open>\<open>BaseParser.post_process_transactions\<close>.\<close>

definition post_process_transactions :: "txn list \<Rightarrow> txn list" where
  "post_process_transactions transactions = transactions"

text \<open>
  What follows the reading of the file in the two \<open>parse_file\<close> methods. The result is a
  sum so that a raised exception would be \<open>Inl\<close>.
\<close>

definition parse_rows ::
  "pylib \<Rightarrow> (columns \<Rightarrow> pystr \<times> cell \<Rightarrow> columns) \<Rightarrow> row list \<Rightarrow> py_error + txn list" where
  "parse_rows L sniff_item data =
     (if data = [] then Inr []
      else
        let cols = identify_columns sniff_item data
        in if \<not> (col_set (date_column cols) \<and> col_set (amount_column cols)) then Inr []
           else Inr (post_process_transactions (List.map_filter (process_row L cols) data)))"

text \<open>
  \<open>KaspiExcelParser.parse_file\<close>. \<open>file_exists\<close> is the result of \<open>validate_file\<close>, \<open>data\<close> that
  of \<open>extract_data_from_excel\<close>, which is the empty list when the file cannot be read.
\<close>

definition KaspiExcelParser_parse_file :: "pylib \<Rightarrow> bool \<Rightarrow> row list \<Rightarrow> py_error + txn list" where
  "KaspiExcelParser_parse_file L file_exists data =
     (if \<not> file_exists then Inr []
      else parse_rows L (excel_sniff_item L) data)"

text \<open>
  \<open>KaspiCSVParser.parse_file\<close>. \<open>read delimiter encoding\<close> is the outcome of
  \<open>extract_data_from_csv\<close>, \<open>None\<close> when it raises. The variable \<open>data\<close> is unbound (\<open>None\<close>)
  until a call has returned; reading it unbound raises \<open>UnboundLocalError\<close>.
\<close>

datatype delimiter = Comma | Semicolon | Tab

datatype encoding = UTF8 | CP1251 | LATIN1

fun csv_try_encodings ::
  "(delimiter \<Rightarrow> encoding \<Rightarrow> row list option) \<Rightarrow> delimiter \<Rightarrow> encoding list
     \<Rightarrow> row list option \<Rightarrow> row list option" where
  "csv_try_encodings read d [] data = data"
| "csv_try_encodings read d (e # es) data =
     (case read d e of
        None \<Rightarrow> csv_try_encodings read d es data
      | Some rows \<Rightarrow> if rows \<noteq> [] then Some rows else csv_try_encodings read d es (Some rows))"

fun csv_try_delimiters ::
  "(delimiter \<Rightarrow> encoding \<Rightarrow> row list option) \<Rightarrow> delimiter list
     \<Rightarrow> row list option \<Rightarrow> py_error + row list" where
  "csv_try_delimiters read [] data =
     (case data of None \<Rightarrow> Inl UnboundLocalError | Some rows \<Rightarrow> Inr rows)"
| "csv_try_delimiters read (d # ds) data =
     (case csv_try_encodings read d [UTF8, CP1251, LATIN1] data of
        None \<Rightarrow> Inl UnboundLocalError
      | Some rows \<Rightarrow> if rows \<noteq> [] then Inr rows else csv_try_delimiters read ds (Some rows))"

definition KaspiCSVParser_parse_file ::
  "pylib \<Rightarrow> bool \<Rightarrow> (delimiter \<Rightarrow> encoding \<Rightarrow> row list option) \<Rightarrow> py_error + txn list" where
  "KaspiCSVParser_parse_file L file_exists read =
     (if \<not> file_exists then Inr []
      else
        case csv_try_delimiters read [Comma, Semicolon, Tab] None of
          Inl e \<Rightarrow> Inl e
        | Inr data \<Rightarrow> parse_rows L (csv_sniff_item L) data)"


section \<open>Kaspi PDF parser\<close>

text \<open>
  The parser works on the matches of two regular expressions in the text of the file. A
  match is the tuple of its groups: date, description, amount, currency (which may be
  absent) and, for the first pattern, the transaction type.
\<close>

type_synonym primary_match = "pystr \<times> pystr \<times> pystr \<times> pystr option \<times> pystr"

type_synonym alt_match = "pystr \<times> pystr \<times> pystr \<times> pystr"

definition prihod :: pystr where
  "prihod = [0x43F, 0x440, 0x438, 0x445, 0x43E, 0x434]"

definition pdf_income_keywords :: "pystr list" where
  "pdf_income_keywords =
     [[0x43F, 0x43E, 0x441, 0x442, 0x443, 0x43F, 0x43B, 0x435, 0x43D, 0x438, 0x435], \<comment> \<open>postuplenie\<close>
      [0x437, 0x430, 0x447, 0x438, 0x441, 0x43B, 0x435, 0x43D, 0x438, 0x435], \<comment> \<open>zachislenie\<close>
      [0x432, 0x43E, 0x437, 0x432, 0x440, 0x430, 0x442], \<comment> \<open>vozvrat\<close>
      [0x43F, 0x435, 0x440, 0x435, 0x432, 0x43E, 0x434, 0x20, 0x43D, 0x430, 0x20, 0x441, 0x447, 0x435, 0x442] \<comment> \<open>perevod na schet\<close>]"

definition pdf_expense_keywords :: "pystr list" where
  "pdf_expense_keywords =
     [[0x43E, 0x43F, 0x43B, 0x430, 0x442, 0x430], \<comment> \<open>oplata\<close>
      [0x441, 0x43F, 0x438, 0x441, 0x430, 0x43D, 0x438, 0x435], \<comment> \<open>spisanie\<close>
      [0x441, 0x43D, 0x44F, 0x442, 0x438, 0x435], \<comment> \<open>snyatie\<close>
      [0x43F, 0x435, 0x440, 0x435, 0x432, 0x43E, 0x434, 0x20, 0x441, 0x43E, 0x20, 0x441, 0x447, 0x435, 0x442, 0x430] \<comment> \<open>perevod so scheta\<close>]"

definition pdf_primary_match :: "pylib \<Rightarrow> primary_match \<Rightarrow> txn option" where
  "pdf_primary_match L m =
     (case m of (date_str, description, amount_str, currency, transaction_type) \<Rightarrow>
        case lib_strptime L date_str DMY_dots of
          None \<Rightarrow> None
        | Some date \<Rightarrow>
            (case lib_float L (replace_comma (remove_spaces amount_str)) of
               None \<Rightarrow> None
             | Some amount \<Rightarrow>
                 (let is_income = (py_lower transaction_type = prihod)
                  in Some \<lparr> t_date = Some date,
                            t_description = Some (py_strip L description),
                            t_amount = Some (if \<not> is_income then abs amount else amount),
                            t_is_income = Some is_income,
                            t_reference = None,
                            t_category = None \<rparr>)))"

text \<open>
  The direction of a match of the second pattern: the loop over the income keywords sets
  the flag, the loop over the expense keywords that follows clears it.
\<close>

definition infer_direction :: "pystr \<Rightarrow> bool" where
  "infer_direction description =
     (let is_income = any_in (map py_lower pdf_income_keywords) (py_lower description)
      in if any_in (map py_lower pdf_expense_keywords) (py_lower description) then False
         else is_income)"

definition pdf_alt_match :: "pylib \<Rightarrow> alt_match \<Rightarrow> txn option" where
  "pdf_alt_match L m =
     (case m of (date_str, description, amount_str, currency) \<Rightarrow>
        case lib_strptime L date_str DMY_dots of
          None \<Rightarrow> None
        | Some date \<Rightarrow>
            (case lib_float L (replace_comma (remove_spaces amount_str)) of
               None \<Rightarrow> None
             | Some amount \<Rightarrow>
                 (let is_income = infer_direction description
                  in Some \<lparr> t_date = Some date,
                            t_description = Some (py_strip L description),
                            t_amount = Some (if \<not> is_income then abs amount else amount),
                            t_is_income = Some is_income,
                            t_reference = None,
                            t_category = None \<rparr>)))"

text \<open>
  \<open>KaspiPDFParser.parse_file\<close>; \<open>primary\<close> and \<open>alt\<close> are the matches of the two patterns in the
  text of the file.
\<close>

definition KaspiPDFParser_parse_file ::
  "pylib \<Rightarrow> bool \<Rightarrow> primary_match list \<Rightarrow> alt_match list \<Rightarrow> py_error + txn list" where
  "KaspiPDFParser_parse_file L file_exists primary alt =
     (if \<not> file_exists then Inr []
      else
        let transactions = List.map_filter (pdf_primary_match L) primary
        in if transactions = []
           then Inr (post_process_transactions (List.map_filter (pdf_alt_match L) alt))
           else Inr (post_process_transactions transactions))"


section \<open>Parser factory and processing of a statement\<close>

datatype parser =
    KaspiPDFParser | KaspiExcelParser | KaspiCSVParser
  | HalykPDFParser | HalykExcelParser | HalykCSVParser

text \<open>\<open>FileName.split('.')[-1].lower()\<close>: what follows the last dot, or the whole name.\<close>

definition file_extension :: "pystr \<Rightarrow> pystr" where
  "file_extension name = py_lower (rev (takeWhile (\<lambda>c. c \<noteq> 0x2E) (rev name)))"

text \<open>
  \<open>get_parser_for_statement\<close>, of the file name and the bank code of the statement. The
  function starts with two imports. The first is of \<open>Core.parser.kaspi_parser\<close>, a module of
  the repository. The second is of \<open>Core.parser.halyk_parser\<close>, a module that the repository
  does not contain: \<open>halyk_parser_importable\<close> says whether that import succeeds, and it is
  \<open>False\<close> for the repository as it is, where the import raises \<open>ModuleNotFoundError\<close> before
  the file name and the bank code are looked at.
\<close>

definition get_parser_for_statement :: "bool \<Rightarrow> pystr \<Rightarrow> pystr \<Rightarrow> py_error + parser option" where
  "get_parser_for_statement halyk_parser_importable file_name bank_code =
     (if \<not> halyk_parser_importable then Inl ModuleNotFoundError
      else
        let ext = file_extension file_name
        in if bank_code = cp ''KASPI'' then
             (if ext = cp ''pdf'' then Inr (Some KaspiPDFParser)
              else if ext = cp ''xlsx'' \<or> ext = cp ''xls'' then Inr (Some KaspiExcelParser)
              else if ext = cp ''csv'' then Inr (Some KaspiCSVParser)
              else Inr None)
           else if bank_code = cp ''HALYK'' then
             (if ext = cp ''pdf'' then Inr (Some HalykPDFParser)
              else if ext = cp ''xlsx'' \<or> ext = cp ''xls'' then Inr (Some HalykExcelParser)
              else if ext = cp ''csv'' then Inr (Some HalykCSVParser)
              else Inr None)
           else Inr None)"

text \<open>
  The registry of the specification: the parsers by (bank code, lower-cased extension).
\<close>

definition registered_parsers :: "((pystr \<times> pystr) \<times> parser) list" where
  "registered_parsers =
     [((cp ''KASPI'', cp ''pdf''), KaspiPDFParser),
      ((cp ''KASPI'', cp ''xlsx''), KaspiExcelParser),
      ((cp ''KASPI'', cp ''xls''), KaspiExcelParser),
      ((cp ''KASPI'', cp ''csv''), KaspiCSVParser),
      ((cp ''HALYK'', cp ''pdf''), HalykPDFParser),
      ((cp ''HALYK'', cp ''xlsx''), HalykExcelParser),
      ((cp ''HALYK'', cp ''xls''), HalykExcelParser),
      ((cp ''HALYK'', cp ''csv''), HalykCSVParser)]"

datatype ProcessingStatusEnum = PENDING | PROCESSING | COMPLETED | FAILED

record analysis_result =
  TotalIncome :: rat
  TotalExpense :: rat
  NetProfit :: rat
  RecommendedTaxAmount :: rat

text \<open>
  What \<open>process_statement_file\<close> leaves in the database for a statement that exists: its
  status, the transactions added and the analysis result. The event log is not modelled.
\<close>

record processing =
  ProcessingStatus :: ProcessingStatusEnum
  saved_transactions :: "txn list"
  saved_analysis :: "analysis_result option"

text \<open>The keys that the loop over the transactions reads with \<open>[]\<close>, which raises \<open>KeyError\<close>.\<close>

definition has_required_keys :: "txn \<Rightarrow> bool" where
  "has_required_keys t =
     (t_date t \<noteq> None \<and> t_amount t \<noteq> None \<and> t_description t \<noteq> None \<and> t_is_income t \<noteq> None)"

text \<open>The \<open>except\<close> branch: the status is set and the session, with what was added, committed.\<close>

definition failed_with :: "txn list \<Rightarrow> processing" where
  "failed_with added =
     \<lparr> ProcessingStatus = FAILED, saved_transactions = added, saved_analysis = None \<rparr>"

text \<open>
  \<open>process_statement_file\<close>; \<open>parse_file p\<close> is the outcome of \<open>parse_file\<close> of the parser \<open>p\<close> on
  the file of the statement. An exception of the factory, like every other one, is caught
  by the \<open>except\<close> branch.
\<close>

definition process_statement_file ::
  "bool \<Rightarrow> (parser \<Rightarrow> py_error + txn list) \<Rightarrow> pystr \<Rightarrow> pystr \<Rightarrow> processing" where
  "process_statement_file halyk_parser_importable parse_file file_name bank_code =
     (case get_parser_for_statement halyk_parser_importable file_name bank_code of
        Inl e \<Rightarrow> failed_with []
      | Inr None \<Rightarrow>
          \<lparr> ProcessingStatus = FAILED, saved_transactions = [], saved_analysis = None \<rparr>
      | Inr (Some p) \<Rightarrow>
          (case parse_file p of
             Inl e \<Rightarrow> failed_with []
           | Inr transactions \<Rightarrow>
               (let added = takeWhile has_required_keys transactions
                in if added \<noteq> transactions then failed_with added
                   else
                     case analyze_income transactions of
                       Inl e \<Rightarrow> failed_with added
                     | Inr income_analysis \<Rightarrow>
                         (case analyze_expenses transactions of
                            Inl e \<Rightarrow> failed_with added
                          | Inr expense_analysis \<Rightarrow>
                              (case calculate_tax (a_total income_analysis)
                                      (a_total expense_analysis) (cp ''ip_simplified'') of
                                 Inl e \<Rightarrow> failed_with added
                               | Inr tax_calculation \<Rightarrow>
                                   \<lparr> ProcessingStatus = COMPLETED,
                                     saved_transactions = added,
                                     saved_analysis =
                                       Some \<lparr> TotalIncome = a_total income_analysis,
                                              TotalExpense = a_total expense_analysis,
                                              NetProfit = a_total income_analysis
                                                          - a_total expense_analysis,
                                              RecommendedTaxAmount =
                                                r_tax_amount tax_calculation \<rparr> \<rparr>)))))"


section \<open>A library instance for examples\<close>

text \<open>
  An instance of the library parameters on which the parsers can be evaluated: ASCII
  digits and whitespace, numbers in plain decimal notation with an optional sign, and
  dates with two-digit day and month and four-digit year. Where it returns a value,
  Python returns the same; Python accepts more inputs.
\<close>

definition ascii_isdigit :: "nat \<Rightarrow> bool" where
  "ascii_isdigit c = (0x30 \<le> c \<and> c \<le> 0x39)"

definition ascii_isspace :: "nat \<Rightarrow> bool" where
  "ascii_isspace c = (c = 0x20 \<or> (0x09 \<le> c \<and> c \<le> 0x0D))"

definition digits_value :: "pystr \<Rightarrow> nat" where
  "digits_value ds = foldl (\<lambda>n c. 10 * n + (c - 0x30)) 0 ds"

definition unsigned_decimal :: "pystr \<Rightarrow> rat option" where
  "unsigned_decimal s =
     (let whole = takeWhile ascii_isdigit s;
          rest = dropWhile ascii_isdigit s
      in case rest of
           [] \<Rightarrow> if whole = [] then None else Some (of_nat (digits_value whole))
         | c # fraction \<Rightarrow>
             if c = 0x2E \<and> list_all ascii_isdigit fraction \<and> (whole \<noteq> [] \<or> fraction \<noteq> [])
             then Some (of_nat (digits_value whole)
                        + of_nat (digits_value fraction) / 10 ^ length fraction)
             else None)"

definition plain_float :: "pystr \<Rightarrow> rat option" where
  "plain_float s =
     (case s of
        [] \<Rightarrow> None
      | c # body \<Rightarrow>
          if c = 0x2D then map_option uminus (unsigned_decimal body)
          else if c = 0x2B then unsigned_decimal body
          else unsigned_decimal s)"

definition days_in_month :: "nat \<Rightarrow> nat \<Rightarrow> nat" where
  "days_in_month y m =
     (if m = 2 then (if (y mod 4 = 0 \<and> y mod 100 \<noteq> 0) \<or> y mod 400 = 0 then 29 else 28)
      else if m = 4 \<or> m = 6 \<or> m = 9 \<or> m = 11 then 30
      else 31)"

definition make_date :: "pystr \<Rightarrow> pystr \<Rightarrow> pystr \<Rightarrow> datetime option" where
  "make_date ys ms ds =
     (let y = digits_value ys; m = digits_value ms; d = digits_value ds
      in if list_all ascii_isdigit (ys @ ms @ ds)
            \<and> 1 \<le> y \<and> 1 \<le> m \<and> m \<le> 12 \<and> 1 \<le> d \<and> d \<le> days_in_month y m
         then Some \<lparr> dt_year = y, dt_month = m, dt_day = d \<rparr>
         else None)"

definition padded_strptime :: "pystr \<Rightarrow> date_format \<Rightarrow> datetime option" where
  "padded_strptime s date_format =
     (if length s \<noteq> 10 then None
      else case date_format of
             DMY_dots \<Rightarrow>
               if s ! 2 = 0x2E \<and> s ! 5 = 0x2E
               then make_date (drop 6 s) (take 2 (drop 3 s)) (take 2 s) else None
           | YMD_dashes \<Rightarrow>
               if s ! 4 = 0x2D \<and> s ! 7 = 0x2D
               then make_date (take 4 s) (take 2 (drop 5 s)) (drop 8 s) else None
           | DMY_slashes \<Rightarrow>
               if s ! 2 = 0x2F \<and> s ! 5 = 0x2F
               then make_date (drop 6 s) (take 2 (drop 3 s)) (take 2 s) else None)"

definition ascii_lib :: pylib where
  "ascii_lib =
     \<lparr> lib_isdigit = ascii_isdigit, lib_isspace = ascii_isspace,
       lib_float = plain_float, lib_strptime = padded_strptime \<rparr>"


section \<open>The breakdown in double-precision arithmetic\<close>







text \<open>\<open>d[k] += v\<close> on a \<open>defaultdict(float)\<close>, with the sum rounded.\<close>

fun dict_add_rounded ::
  "(rat \<Rightarrow> rat) \<Rightarrow> ('k, rat) pydict \<Rightarrow> 'k \<Rightarrow> rat \<Rightarrow> ('k, rat) pydict" where
  "dict_add_rounded rnd [] k v = [(k, rnd (0 + v))]"
| "dict_add_rounded rnd ((k', v') # d) k v =
     (if k' = k then (k', rnd (v' + v)) # d else (k', v') # dict_add_rounded rnd d k v)"

text \<open>
  \<open>sum(d.values())\<close>: the values are added from left to right, starting from 0, each
  partial sum rounded. (CPython from 3.12 on compensates the rounding errors of the partial
  sums; the two agree wherever the partial sums are exact.)
\<close>

definition sum_values_rounded :: "(rat \<Rightarrow> rat) \<Rightarrow> ('k, rat) pydict \<Rightarrow> rat" where
  "sum_values_rounded rnd d = foldl (\<lambda>s v. rnd (s + v)) 0 (map snd d)"

fun scan_keywords_rounded ::
  "(rat \<Rightarrow> rat) \<Rightarrow> pystr list \<Rightarrow> pystr \<Rightarrow> pystr \<Rightarrow> rat \<Rightarrow> (pystr, rat) pydict
     \<Rightarrow> (pystr, rat) pydict \<times> bool" where
  "scan_keywords_rounded rnd [] category description amount categories = (categories, False)"
| "scan_keywords_rounded rnd (keyword # keywords) category description amount categories =
     (if py_in (py_lower keyword) description
      then (dict_add_rounded rnd categories category amount, True)
      else scan_keywords_rounded rnd keywords category description amount categories)"

fun scan_rules_rounded ::
  "(rat \<Rightarrow> rat) \<Rightarrow> (pystr \<times> pystr list) list \<Rightarrow> pystr \<Rightarrow> rat \<Rightarrow> (pystr, rat) pydict
     \<Rightarrow> (pystr, rat) pydict \<times> bool" where
  "scan_rules_rounded rnd [] description amount categories = (categories, False)"
| "scan_rules_rounded rnd ((category, keywords) # rules) description amount categories =
     (case scan_keywords_rounded rnd keywords category description amount categories of
        (categories', category_found) \<Rightarrow>
          if category_found then (categories', True)
          else scan_rules_rounded rnd rules description amount categories')"

definition classify_transaction_rounded ::
  "(rat \<Rightarrow> rat) \<Rightarrow> (pystr \<times> pystr list) list \<Rightarrow> (pystr, rat) pydict \<Rightarrow> txn
     \<Rightarrow> (pystr, rat) pydict" where
  "classify_transaction_rounded rnd rules categories transaction =
     (let description = py_lower (case t_description transaction of None \<Rightarrow> [] | Some s \<Rightarrow> s);
          amount = (case t_amount transaction of None \<Rightarrow> 0 | Some a \<Rightarrow> a)
      in case scan_rules_rounded rnd rules description amount categories of
           (categories', category_found) \<Rightarrow>
             if \<not> category_found then dict_add_rounded rnd categories' other_label amount
             else categories')"

text \<open>\<open>amount / sum(categories.values()) * 100\<close>: the quotient is rounded, then the product.\<close>

definition percentage_rounded ::
  "(rat \<Rightarrow> rat) \<Rightarrow> (pystr, rat) pydict \<Rightarrow> rat \<Rightarrow> py_error + rat" where
  "percentage_rounded rnd categories amount =
     (if sum_values_rounded rnd categories > 0
      then (case py_div amount (sum_values_rounded rnd categories) of
              Inl e \<Rightarrow> Inl e
            | Inr q \<Rightarrow> Inr (rnd (rnd q * 100)))
      else Inr 0)"

definition breakdown_rounded ::
  "(rat \<Rightarrow> rat) \<Rightarrow> (pystr, rat) pydict \<Rightarrow> py_error + share_row list" where
  "breakdown_rounded rnd categories =
     collect (map (\<lambda>(category, amount).
                     case percentage_rounded rnd categories amount of
                       Inl e \<Rightarrow> Inl e
                     | Inr p \<Rightarrow> Inr \<lparr> s_label = category, s_amount = amount, s_percentage = p \<rparr>)
                  (sorted_desc snd categories))"

definition categorize_expenses_rounded :: "(rat \<Rightarrow> rat) \<Rightarrow> txn list \<Rightarrow> py_error + share_row list" where
  "categorize_expenses_rounded rnd transactions =
     breakdown_rounded rnd (foldl (classify_transaction_rounded rnd category_keywords) [] transactions)"

definition analyze_income_sources_rounded :: "(rat \<Rightarrow> rat) \<Rightarrow> txn list \<Rightarrow> py_error + share_row list" where
  "analyze_income_sources_rounded rnd transactions =
     breakdown_rounded rnd (foldl (classify_transaction_rounded rnd source_keywords) [] transactions)"


section \<open>Library facts\<close>

lemma starts_with_iff: "starts_with s kw \<longleftrightarrow> (\<exists>ss. s = kw @ ss)"
  by (induction s kw rule: starts_with.induct) auto

lemma py_in_iff: "py_in kw s \<longleftrightarrow> (\<exists>ps ss. s = ps @ kw @ ss)"
proof (induction s)
  case Nil
  then show ?case by auto
next
  case (Cons c s)
  show ?case
  proof
    assume "py_in kw (c # s)"
    then consider "starts_with (c # s) kw" | "py_in kw s" by auto
    then show "\<exists>ps ss. c # s = ps @ kw @ ss"
    proof cases
      case 1
      then obtain ss where "c # s = kw @ ss" by (auto simp: starts_with_iff)
      then have "c # s = [] @ kw @ ss" by simp
      then show ?thesis by blast
    next
      case 2
      with Cons.IH obtain ps ss where "s = ps @ kw @ ss" by blast
      then have "c # s = (c # ps) @ kw @ ss" by simp
      then show ?thesis by blast
    qed
  next
    assume "\<exists>ps ss. c # s = ps @ kw @ ss"
    then obtain ps ss where eq: "c # s = ps @ kw @ ss" by blast
    show "py_in kw (c # s)"
    proof (cases ps)
      case Nil
      with eq have "starts_with (c # s) kw" by (auto simp: starts_with_iff)
      then show ?thesis by simp
    next
      case (Cons p ps')
      with eq have "s = ps' @ kw @ ss" by simp
      with Cons.IH have "py_in kw s" by blast
      then show ?thesis by simp
    qed
  qed
qed

lemma sum_values_Nil: "sum_values [] = 0"
  by (simp add: sum_values_def)

lemma sum_values_dict_add: "sum_values (dict_add d k v) = sum_values d + v"
  by (induction d) (auto simp: sum_values_def)

lemma sum_values_foldl_dict_add:
  "sum_values (foldl (\<lambda>d t. dict_add d (f t) (g t)) d0 ts) = sum_values d0 + sum_list (map g ts)"
  by (induction ts arbitrary: d0) (simp_all add: sum_values_dict_add)

lemma scan_keywords_eq:
  "scan_keywords keywords category description amount categories =
     (if list_ex (\<lambda>keyword. py_in (py_lower keyword) description) keywords
      then (dict_add categories category amount, True)
      else (categories, False))"
  by (induction "keywords") simp_all

lemma scan_rules_eq:
  "scan_rules rules description amount categories =
     (case find (\<lambda>rule. list_ex (\<lambda>keyword. py_in (py_lower keyword) description) (snd rule)) rules of
        None \<Rightarrow> (categories, False)
      | Some rule \<Rightarrow> (dict_add categories (fst rule) amount, True))"
  by (induction rules) (auto simp: scan_keywords_eq)

lemma classify_transaction_eq:
  "classify_transaction rules categories t =
     dict_add categories
       (case find (\<lambda>rule. list_ex (\<lambda>keyword. py_in (py_lower keyword)
                       (py_lower (case t_description t of None \<Rightarrow> [] | Some s \<Rightarrow> s))) (snd rule)) rules of
          None \<Rightarrow> other_label | Some rule \<Rightarrow> fst rule)
       (get_amount t)"
  by (simp add: classify_transaction_def scan_rules_eq get_amount_def Let_def split: option.splits)

lemma find_cong_set: "(\<And>x. x \<in> set xs \<Longrightarrow> P x = Q x) \<Longrightarrow> find P xs = find Q xs"
  by (induction xs) auto

lemma classify_transaction_first_match:
  assumes "\<forall>kw \<in> set (concat (map snd rules)). py_lower kw = kw"
  shows "classify_transaction rules categories t =
     dict_add categories
       (first_matching_label rules (py_lower (case t_description t of None \<Rightarrow> [] | Some s \<Rightarrow> s)))
       (get_amount t)"
proof -
  have "find (\<lambda>rule. list_ex (\<lambda>keyword. py_in (py_lower keyword) d) (snd rule)) rules
        = find (rule_matches d) rules" for d
    using assms by (intro find_cong_set) (auto simp: rule_matches_def list_ex_iff)
  then show ?thesis
    by (simp add: classify_transaction_eq first_matching_label_def)
qed



lemma percentage_Inr:
  "percentage categories amount =
     Inr (if sum_values categories > 0 then amount / sum_values categories * 100 else 0)"
  by (simp add: percentage_def py_div_def)

lemma collect_Inr: "collect (map (\<lambda>x. Inr (f x)) xs) = Inr (map f xs)"
  by (induction xs) simp_all

lemma breakdown_Inr:
  "breakdown categories = Inr (map (share_of categories) (sorted_desc snd categories))"
proof -
  have "(\<lambda>(category, amount).
           case percentage categories amount of
             Inl e \<Rightarrow> Inl e
           | Inr p \<Rightarrow> Inr \<lparr> s_label = category, s_amount = amount, s_percentage = p \<rparr>)
        = (\<lambda>x. Inr (share_of categories x))"
    by (auto simp: percentage_Inr share_of_def fun_eq_iff)
  then show ?thesis
    by (simp add: breakdown_def collect_Inr)
qed






section \<open>Tax calculator: results\<close>

lemma calculate_tax_Inr:
  "calculate_tax income expense tax_regime =
     (let tax_rate = dict_get DEFAULT_TAX_RATES tax_regime 3;
          tax_base = (if tax_regime = cp ''ip_simplified'' \<or> tax_regime = cp ''too_simplified''
                      then income else max 0 (income - expense));
          tax_amount = tax_base * (tax_rate / 100)
      in Inr \<lparr> r_tax_regime = tax_regime,
           r_tax_rate = tax_rate,
           r_tax_base = tax_base,
           r_tax_amount = tax_amount,
           r_effective_tax_rate = (if income > 0 then tax_amount / income * 100 else 0),
           r_income = income, r_expense = expense, r_profit = income - expense \<rparr>)"
  by (simp add: calculate_tax_def py_div_def Let_def)

lemma regime_neq:
  "cp ''ip_general'' \<noteq> cp ''ip_simplified''" "cp ''ip_general'' \<noteq> cp ''too_simplified''"
  "cp ''too_general'' \<noteq> cp ''ip_simplified''" "cp ''too_general'' \<noteq> cp ''too_simplified''"
  by (simp_all add: cp_def)

text \<open>
  Claim C5. For every income, expense and regime, \<open>calculate_tax\<close> returns a result whose
  tax base is the income for the simplified regimes and \<open>max(0, income - expense)\<close> for the
  general regimes, whose tax amount is the tax base times rate/100, the rate being that of
  \<open>DEFAULT_TAX_RATES\<close>, and whose effective rate is 0 when the income is 0 (and
  tax amount / income * 100 when the income is positive).
\<close>

theorem calculate_tax_base_amount_rate:
  "\<exists>r. calculate_tax income expense regime = Inr r
     \<and> (regime = cp ''ip_simplified'' \<or> regime = cp ''too_simplified'' \<longrightarrow> r_tax_base r = income)
     \<and> (regime = cp ''ip_general'' \<or> regime = cp ''too_general''
            \<longrightarrow> r_tax_base r = max 0 (income - expense))
     \<and> r_tax_rate r = dict_get DEFAULT_TAX_RATES regime 3
     \<and> r_tax_amount r = r_tax_base r * (r_tax_rate r / 100)
     \<and> (income = 0 \<longrightarrow> r_effective_tax_rate r = 0)
     \<and> (income > 0 \<longrightarrow> r_effective_tax_rate r = r_tax_amount r / income * 100)"
  by (auto simp add: calculate_tax_Inr Let_def regime_neq)

theorem calculate_tax_base_amount_rate_witness:
  "(\<exists>r. calculate_tax 0 400 (cp ''ip_simplified'') = Inr r
        \<and> r_tax_base r = 0 \<and> r_tax_rate r = 3 \<and> r_tax_amount r = 0 \<and> r_effective_tax_rate r = 0)
   \<and> (\<exists>r. calculate_tax 1000 400 (cp ''too_general'') = Inr r
        \<and> r_tax_base r = 600 \<and> r_tax_rate r = 20 \<and> r_tax_amount r = 120 \<and> r_effective_tax_rate r = 12)"
  using calculate_tax_base_amount_rate [of 0 400 "cp ''ip_simplified''"]
        calculate_tax_base_amount_rate [of 1000 400 "cp ''too_general''"]
  by (auto simp add: dict_get_def DEFAULT_TAX_RATES_def cp_def)

text \<open>
  Claim C10. For every income and expense, \<open>calculate_tax\<close> with a regime that is none of the
  four known ones does not fail: it returns the complete result, computed with the default
  rate 3.0 and the general-regime base \<open>max(0, income - expense)\<close>.
\<close>

theorem calculate_tax_unknown_regime:
  assumes "regime \<notin> set known_regimes"
  shows "calculate_tax income expense regime =
           Inr \<lparr> r_tax_regime = regime,
                 r_tax_rate = 3,
                 r_tax_base = max 0 (income - expense),
                 r_tax_amount = max 0 (income - expense) * (3 / 100),
                 r_effective_tax_rate =
                   (if income > 0 then max 0 (income - expense) * (3 / 100) / income * 100 else 0),
                 r_income = income,
                 r_expense = expense,
                 r_profit = income - expense \<rparr>"
proof -
  from assms have rate: "dict_get DEFAULT_TAX_RATES regime 3 = 3"
    by (simp add: known_regimes_def DEFAULT_TAX_RATES_def dict_get_def)
  from assms have general: "regime \<noteq> cp ''ip_simplified''" "regime \<noteq> cp ''too_simplified''"
    by (auto simp add: known_regimes_def DEFAULT_TAX_RATES_def)
  show ?thesis
    by (simp add: calculate_tax_Inr Let_def rate general)
qed

theorem calculate_tax_unknown_regime_witness:
  "cp ''patent'' \<notin> set known_regimes \<and>
   calculate_tax 1000 400 (cp ''patent'') =
     Inr \<lparr> r_tax_regime = cp ''patent'', r_tax_rate = 3, r_tax_base = 600, r_tax_amount = 18,
           r_effective_tax_rate = 9 / 5, r_income = 1000, r_expense = 400, r_profit = 600 \<rparr>"
proof -
  have h: "cp ''patent'' \<notin> set known_regimes"
    by (simp add: known_regimes_def DEFAULT_TAX_RATES_def cp_def)
  show ?thesis
    using h calculate_tax_unknown_regime [OF h, of 1000 400] by simp
qed


section \<open>Aggregation: results\<close>

lemma summarize_Inr:
  assumes "classifier selected = Inr rows"
  shows "\<exists>r. summarize classifier selected = Inr r
           \<and> a_total r = sum_list (map get_amount selected)
           \<and> sum_values (a_by_category r) = a_total r
           \<and> a_breakdown r = (if selected = [] then [] else rows)"
proof (cases "selected = []")
  case True
  then show ?thesis
    by (simp add: summarize_def empty_analysis_def sum_values_Nil)
next
  case False
  then have "length selected > 0" by simp
  with False assms show ?thesis
    by (simp add: summarize_def py_div_def Let_def sum_values_foldl_dict_add sum_values_Nil)
qed

lemma categorize_expenses_Inr:
  "\<exists>rows. categorize_expenses ts = Inr rows"
  by (simp add: categorize_expenses_def breakdown_Inr)

lemma analyze_income_sources_Inr:
  "\<exists>rows. analyze_income_sources ts = Inr rows"
  by (simp add: analyze_income_sources_def breakdown_Inr)

text \<open>
  Claim C6. For every transaction list, \<open>analyze_expenses\<close> returns a result, and the sum of
  the values of its \<open>by_category\<close> map equals its \<open>total\<close>; likewise for \<open>analyze_income\<close>
  (under exact arithmetic).
\<close>

theorem by_category_sums_to_total:
  "(\<exists>r. analyze_expenses transactions = Inr r \<and> sum_values (a_by_category r) = a_total r)
   \<and> (\<exists>r. analyze_income transactions = Inr r \<and> sum_values (a_by_category r) = a_total r)"
proof
  let ?e = "filter (\<lambda>t. \<not> (case t_is_income t of None \<Rightarrow> True | Some b \<Rightarrow> b)) transactions"
  obtain rows where "categorize_expenses ?e = Inr rows"
    using categorize_expenses_Inr by blast
  then show "\<exists>r. analyze_expenses transactions = Inr r \<and> sum_values (a_by_category r) = a_total r"
    using summarize_Inr [of categorize_expenses ?e rows] by (auto simp: analyze_expenses_def)
next
  let ?i = "filter (\<lambda>t. case t_is_income t of None \<Rightarrow> False | Some b \<Rightarrow> b) transactions"
  obtain rows where "analyze_income_sources ?i = Inr rows"
    using analyze_income_sources_Inr by blast
  then show "\<exists>r. analyze_income transactions = Inr r \<and> sum_values (a_by_category r) = a_total r"
    using summarize_Inr [of analyze_income_sources ?i rows] by (auto simp: analyze_income_def)
qed

theorem by_category_sums_to_total_witness:
  "(\<exists>r. analyze_expenses
           [\<lparr> t_date = None, t_description = Some (cp ''rent''), t_amount = Some 40,
              t_is_income = Some False, t_reference = None, t_category = Some (cp ''Housing'') \<rparr>,
            \<lparr> t_date = None, t_description = Some (cp ''salary''), t_amount = Some 90,
              t_is_income = Some True, t_reference = None, t_category = None \<rparr>,
            \<lparr> t_date = None, t_description = Some (cp ''taxi''), t_amount = Some 10,
              t_is_income = Some False, t_reference = None, t_category = None \<rparr>] = Inr r
        \<and> a_total r = 50 \<and> sum_values (a_by_category r) = 50)
   \<and> (\<exists>r. analyze_income
           [\<lparr> t_date = None, t_description = Some (cp ''rent''), t_amount = Some 40,
              t_is_income = Some False, t_reference = None, t_category = Some (cp ''Housing'') \<rparr>,
            \<lparr> t_date = None, t_description = Some (cp ''salary''), t_amount = Some 90,
              t_is_income = Some True, t_reference = None, t_category = None \<rparr>,
            \<lparr> t_date = None, t_description = Some (cp ''taxi''), t_amount = Some 10,
              t_is_income = Some False, t_reference = None, t_category = None \<rparr>] = Inr r
        \<and> a_total r = 90 \<and> sum_values (a_by_category r) = 90)"
proof -
  let ?ts = "[\<lparr> t_date = None, t_description = Some (cp ''rent''), t_amount = Some 40,
              t_is_income = Some False, t_reference = None, t_category = Some (cp ''Housing'') \<rparr>,
            \<lparr> t_date = None, t_description = Some (cp ''salary''), t_amount = Some 90,
              t_is_income = Some True, t_reference = None, t_category = None \<rparr>,
            \<lparr> t_date = None, t_description = Some (cp ''taxi''), t_amount = Some 10,
              t_is_income = Some False, t_reference = None, t_category = None \<rparr>]"
  have e: "\<And>r. analyze_expenses ?ts = Inr r \<Longrightarrow> a_total r = 50"
    by (auto simp: analyze_expenses_def summarize_def Let_def get_amount_def py_div_def
             split: sum.splits)
  have i: "\<And>r. analyze_income ?ts = Inr r \<Longrightarrow> a_total r = 90"
    by (auto simp: analyze_income_def summarize_def Let_def get_amount_def py_div_def
             split: sum.splits)
  from by_category_sums_to_total [of ?ts] e i show ?thesis
    by (metis (no_types, lifting))
qed




section \<open>Classification: results\<close>

lemma category_keywords_lower:
  "\<forall>kw \<in> set (concat (map snd category_keywords)). py_lower kw = kw"
  by (simp add: category_keywords_def py_lower_def lower_cp_def cp_def)

lemma source_keywords_lower:
  "\<forall>kw \<in> set (concat (map snd source_keywords)). py_lower kw = kw"
  by (simp add: source_keywords_def py_lower_def lower_cp_def cp_def)

text \<open>
  Claim C8. For every transaction, the loop body of \<open>categorize_expenses\<close> (and that of
  \<open>analyze_income_sources\<close>) lower-cases the description, goes through the rules in
  declaration order and adds the amount to one label only: that of the first rule one of
  whose keywords occurs as a substring of the lower-cased description, or the fallback
  label Drugoe when no rule matches. The substring test \<open>py_in\<close> is characterised by
  \<open>py_in_iff\<close>.
\<close>

theorem classifier_first_match_wins:
  "classify_transaction category_keywords categories t =
     dict_add categories
       (first_matching_label category_keywords
          (py_lower (case t_description t of None \<Rightarrow> [] | Some s \<Rightarrow> s)))
       (get_amount t)
   \<and> classify_transaction source_keywords categories t =
     dict_add categories
       (first_matching_label source_keywords
          (py_lower (case t_description t of None \<Rightarrow> [] | Some s \<Rightarrow> s)))
       (get_amount t)"
  using category_keywords_lower source_keywords_lower
  by (simp add: classify_transaction_first_match)

theorem classifier_first_match_wins_witness:
  "classify_transaction category_keywords []
     \<lparr> t_date = None, t_description = Some (cp ''Marketing for RENT''), t_amount = Some 75,
       t_is_income = Some False, t_reference = None, t_category = None \<rparr>
     = [([0x410, 0x440, 0x435, 0x43D, 0x434, 0x430], 75)]
   \<and> classify_transaction source_keywords []
     \<lparr> t_date = None, t_description = Some (cp ''XYZ''), t_amount = Some 5,
       t_is_income = Some True, t_reference = None, t_category = None \<rparr>
     = [(other_label, 5)]"
proof -
  have e: "first_matching_label category_keywords (py_lower (cp ''Marketing for RENT''))
             = [0x410, 0x440, 0x435, 0x43D, 0x434, 0x430]"
    by (simp add: first_matching_label_def rule_matches_def category_keywords_def
                  py_lower_def lower_cp_def cp_def)
  have i: "first_matching_label source_keywords (py_lower (cp ''XYZ'')) = other_label"
    by (simp add: first_matching_label_def rule_matches_def source_keywords_def
                  py_lower_def lower_cp_def cp_def)
  show ?thesis
    using classifier_first_match_wins
            [of "[]" "\<lparr> t_date = None, t_description = Some (cp ''Marketing for RENT''),
                         t_amount = Some 75, t_is_income = Some False, t_reference = None,
                         t_category = None \<rparr>"]
          classifier_first_match_wins
            [of "[]" "\<lparr> t_date = None, t_description = Some (cp ''XYZ''),
                         t_amount = Some 5, t_is_income = Some True, t_reference = None,
                         t_category = None \<rparr>"]
    by (simp add: e i get_amount_def)
qed

text \<open>
  Claim C9. A transaction without the key \<open>is_income\<close> is counted by neither analysis:
  the filter of \<open>analyze_expenses\<close> takes the flag as true and that of \<open>analyze_income\<close> as
  false, so that each analysis of a list is that of the list without the transaction.
\<close>

theorem missing_is_income_counted_nowhere:
  assumes "t_is_income t = None"
  shows "analyze_expenses (before @ t # after) = analyze_expenses (before @ after)
       \<and> analyze_income (before @ t # after) = analyze_income (before @ after)"
  using assms by (simp add: analyze_expenses_def analyze_income_def)

theorem missing_is_income_counted_nowhere_witness:
  "t_is_income \<lparr> t_date = None, t_description = Some (cp ''rent''), t_amount = Some 40,
                 t_is_income = None, t_reference = None, t_category = None \<rparr> = None
   \<and> analyze_expenses
       [\<lparr> t_date = None, t_description = Some (cp ''rent''), t_amount = Some 40,
          t_is_income = None, t_reference = None, t_category = None \<rparr>] = Inr empty_analysis
   \<and> analyze_income
       [\<lparr> t_date = None, t_description = Some (cp ''rent''), t_amount = Some 40,
          t_is_income = None, t_reference = None, t_category = None \<rparr>] = Inr empty_analysis"
proof -
  have h: "t_is_income \<lparr> t_date = None, t_description = Some (cp ''rent''), t_amount = Some 40,
                 t_is_income = None, t_reference = None, t_category = None \<rparr> = None"
    by simp
  have empty: "analyze_expenses [] = Inr empty_analysis" "analyze_income [] = Inr empty_analysis"
    by (simp_all add: analyze_expenses_def analyze_income_def summarize_def)
  show ?thesis
    using h missing_is_income_counted_nowhere [OF h, of "[]" "[]"] empty by simp
qed



section \<open>Double-precision arithmetic: results\<close>

text \<open>Without rounding, the definitions of the double-precision section are the exact ones.\<close>

lemma dict_add_rounded_exact: "dict_add_rounded (\<lambda>x. x) d k v = dict_add d k v"
  by (induction d) auto

lemma foldl_add_exact: "foldl (\<lambda>s v. s + v) a vs = a + sum_list (vs :: rat list)"
  by (induction vs arbitrary: a) simp_all

lemma sum_values_rounded_exact: "sum_values_rounded (\<lambda>x. x) d = sum_values d"
  by (simp add: sum_values_rounded_def sum_values_def foldl_add_exact)

lemma scan_keywords_rounded_exact:
  "scan_keywords_rounded (\<lambda>x. x) kws category description amount categories
     = scan_keywords kws category description amount categories"
  by (induction kws) (simp_all add: dict_add_rounded_exact)

lemma scan_rules_rounded_exact:
  "scan_rules_rounded (\<lambda>x. x) rules description amount categories
     = scan_rules rules description amount categories"
  by (induction rules arbitrary: categories)
     (auto simp: scan_keywords_rounded_exact split: prod.splits)

lemma classify_transaction_rounded_exact:
  "classify_transaction_rounded (\<lambda>x. x) rules = classify_transaction rules"
  by (auto simp add: classify_transaction_rounded_def classify_transaction_def fun_eq_iff
                scan_rules_rounded_exact dict_add_rounded_exact Let_def split: prod.splits)

lemma percentage_rounded_exact:
  "percentage_rounded (\<lambda>x. x) categories amount = percentage categories amount"
  by (simp add: percentage_rounded_def percentage_def sum_values_rounded_exact cong: if_cong)

lemma breakdown_rounded_exact: "breakdown_rounded (\<lambda>x. x) categories = breakdown categories"
  by (simp add: breakdown_rounded_def breakdown_def percentage_rounded_exact)

lemma categorize_expenses_rounded_exact:
  "categorize_expenses_rounded (\<lambda>x. x) transactions = categorize_expenses transactions"
  by (simp add: categorize_expenses_rounded_def categorize_expenses_def
                classify_transaction_rounded_exact breakdown_rounded_exact)

lemma analyze_income_sources_rounded_exact:
  "analyze_income_sources_rounded (\<lambda>x. x) transactions = analyze_income_sources transactions"
  by (simp add: analyze_income_sources_rounded_def analyze_income_sources_def
                classify_transaction_rounded_exact breakdown_rounded_exact)








section \<open>Parsers: results\<close>

lemmas row_defs =
  KaspiExcelParser_parse_file_def KaspiCSVParser_parse_file_def parse_rows_def
  identify_columns_def scan_headers_def scan_header_def sniff_rows.simps
  excel_sniff_item_def csv_sniff_item_def no_columns_def col_set_def get_col_def row_get_def
  process_row_def parse_date_def parse_amount_def resolve_direction_def
  post_process_transactions_def List.map_filter_def any_in_def
  date_header_keywords_def description_header_keywords_def amount_header_keywords_def
  type_header_keywords_def reference_header_keywords_def
  income_type_keywords_def expense_type_keywords_def
  py_lower_def lower_cp_def cp_def Let_def

lemmas lib_defs =
  ascii_lib_def ascii_isdigit_def ascii_isspace_def plain_float_def unsigned_decimal_def
  digits_value_def padded_strptime_def make_date_def days_in_month_def
  re_match_date_def re_sub_non_numeric_def replace_comma_def remove_spaces_def

text \<open>
  Claim C1 says that every transaction returned by a \<open>parse_file\<close> has a non-negative
  amount. The Excel parser (and the CSV parser, by the same loop body) takes the absolute
  value only in the branch without a type value: a row with a type value and a negative
  number in the amount column is returned with the negative amount.
\<close>

theorem excel_typed_row_keeps_negative_amount:
  "KaspiExcelParser_parse_file ascii_lib True
     [[(cp ''Date'', CDate \<lparr> dt_year = 2024, dt_month = 1, dt_day = 2 \<rparr> (cp ''2024-01-02 00:00:00'')),
       (cp ''Amount'', CNum (- 500) (cp ''-500.0'')),
       (cp ''Type'', CStr (cp ''expense''))]]
   = Inr [\<lparr> t_date = Some \<lparr> dt_year = 2024, dt_month = 1, dt_day = 2 \<rparr>,
            t_description = Some [],
            t_amount = Some (- 500),
            t_is_income = Some False,
            t_reference = None,
            t_category = None \<rparr>]"
  by (simp add: row_defs)

text \<open>
  Claim C2 says that a type value with both an income keyword and an expense keyword gives
  \<open>is_income = true\<close>. The type value \<open>income/expense\<close> has both, and the row is returned as
  an expense.
\<close>

theorem income_keywords_priority_counterexample:
  "any_in income_type_keywords (py_lower (cp ''income/expense''))
   \<and> any_in expense_type_keywords (py_lower (cp ''income/expense''))
   \<and> KaspiExcelParser_parse_file ascii_lib True
       [[(cp ''Date'', CStr (cp ''02.01.2024'')),
         (cp ''Amount'', CNum 100 (cp ''100.0'')),
         (cp ''Type'', CStr (cp ''income/expense''))]]
     = Inr [\<lparr> t_date = Some \<lparr> dt_year = 2024, dt_month = 1, dt_day = 2 \<rparr>,
              t_description = Some [],
              t_amount = Some 100,
              t_is_income = Some False,
              t_reference = None,
              t_category = None \<rparr>]"
  by (simp add: row_defs lib_defs)

lemma resolve_direction_expense:
  assumes "col_set (type_column cols)" "truthy (get_col r (type_column cols))"
    and "any_in expense_type_keywords (py_lower (py_str (get_col r (type_column cols))))"
  shows "resolve_direction cols r amount = (False, amount)"
  using assms by (simp add: resolve_direction_def Let_def)

text \<open>
  Claim C2, amended. For every parsed row whose type value contains both an
  income-indicating and an expense-indicating keyword, the transaction has
  \<open>is_income = false\<close>: the expense keywords take priority. The same holds for the direction
  that the PDF parser infers from a description with keywords of both lists.
\<close>

theorem expense_keywords_take_priority:
  "(col_set (type_column cols) \<and> truthy (get_col r (type_column cols))
      \<and> any_in income_type_keywords (py_lower (py_str (get_col r (type_column cols))))
      \<and> any_in expense_type_keywords (py_lower (py_str (get_col r (type_column cols))))
      \<and> process_row L cols r = Some t
    \<longrightarrow> t_is_income t = Some False)
   \<and> (any_in (map py_lower pdf_income_keywords) (py_lower description)
      \<and> any_in (map py_lower pdf_expense_keywords) (py_lower description)
    \<longrightarrow> \<not> infer_direction description)"
proof (intro conjI impI)
  assume a: "col_set (type_column cols) \<and> truthy (get_col r (type_column cols))
      \<and> any_in income_type_keywords (py_lower (py_str (get_col r (type_column cols))))
      \<and> any_in expense_type_keywords (py_lower (py_str (get_col r (type_column cols))))
      \<and> process_row L cols r = Some t"
  then have "resolve_direction cols r amount = (False, amount)" for amount
    by (simp add: resolve_direction_expense)
  with a show "t_is_income t = Some False"
    by (auto simp: process_row_def Let_def split: if_splits option.splits)
next
  assume "any_in (map py_lower pdf_income_keywords) (py_lower description)
      \<and> any_in (map py_lower pdf_expense_keywords) (py_lower description)"
  then show "\<not> infer_direction description"
    by (simp add: infer_direction_def)
qed

theorem expense_keywords_take_priority_witness:
  "col_set (type_column (no_columns\<lparr> date_column := Some (cp ''Date''),
                     amount_column := Some (cp ''Amount''), type_column := Some (cp ''Type'') \<rparr>))
   \<and> any_in income_type_keywords (py_lower (cp ''Credit / Debit''))
   \<and> any_in expense_type_keywords (py_lower (cp ''Credit / Debit''))
   \<and> process_row ascii_lib
        (no_columns\<lparr> date_column := Some (cp ''Date''),
                     amount_column := Some (cp ''Amount''), type_column := Some (cp ''Type'') \<rparr>)
        [(cp ''Date'', CStr (cp ''02.01.2024'')),
         (cp ''Amount'', CStr (cp ''1 500,50'')),
         (cp ''Type'', CStr (cp ''Credit / Debit''))]
      = Some \<lparr> t_date = Some \<lparr> dt_year = 2024, dt_month = 1, dt_day = 2 \<rparr>,
               t_description = Some [],
               t_amount = Some (3001 / 2),
               t_is_income = Some False,
               t_reference = None,
               t_category = None \<rparr>
   \<and> any_in (map py_lower pdf_income_keywords)
        (py_lower ([0x412, 0x43E, 0x437, 0x432, 0x440, 0x430, 0x442, 0x20,
                    0x43E, 0x43F, 0x43B, 0x430, 0x442, 0x430]))
   \<and> any_in (map py_lower pdf_expense_keywords)
        (py_lower ([0x412, 0x43E, 0x437, 0x432, 0x440, 0x430, 0x442, 0x20,
                    0x43E, 0x43F, 0x43B, 0x430, 0x442, 0x430]))
   \<and> \<not> infer_direction [0x412, 0x43E, 0x437, 0x432, 0x440, 0x430, 0x442, 0x20,
                         0x43E, 0x43F, 0x43B, 0x430, 0x442, 0x430]"
proof -
  let ?cols = "no_columns\<lparr> date_column := Some (cp ''Date''),
                 amount_column := Some (cp ''Amount''), type_column := Some (cp ''Type'') \<rparr>"
  let ?r = "[(cp ''Date'', CStr (cp ''02.01.2024'')),
             (cp ''Amount'', CStr (cp ''1 500,50'')),
             (cp ''Type'', CStr (cp ''Credit / Debit''))]"
  let ?t = "\<lparr> t_date = Some \<lparr> dt_year = 2024, dt_month = 1, dt_day = 2 \<rparr>,
              t_description = Some [], t_amount = Some (3001 / 2), t_is_income = Some False,
              t_reference = None, t_category = None \<rparr>"
  let ?d = "[0x412, 0x43E, 0x437, 0x432, 0x440, 0x430, 0x442, 0x20,
             0x43E, 0x43F, 0x43B, 0x430, 0x442, 0x430] :: pystr"
  have h1: "col_set (type_column ?cols) \<and> truthy (get_col ?r (type_column ?cols))
      \<and> any_in income_type_keywords (py_lower (py_str (get_col ?r (type_column ?cols))))
      \<and> any_in expense_type_keywords (py_lower (py_str (get_col ?r (type_column ?cols))))
      \<and> process_row ascii_lib ?cols ?r = Some ?t"
    by (simp add: row_defs lib_defs)
  have h2: "any_in (map py_lower pdf_income_keywords) (py_lower ?d)
      \<and> any_in (map py_lower pdf_expense_keywords) (py_lower ?d)"
    by (simp add: any_in_def pdf_income_keywords_def pdf_expense_keywords_def
                  py_lower_def lower_cp_def)
  have h3: "any_in income_type_keywords (py_lower (cp ''Credit / Debit''))
      \<and> any_in expense_type_keywords (py_lower (cp ''Credit / Debit''))"
    by (simp add: row_defs)
  from expense_keywords_take_priority [of ?cols ?r ascii_lib ?t ?d] h1 h2
  have "t_is_income ?t = Some False \<and> \<not> infer_direction ?d"
    by blast
  with h1 h2 h3 show ?thesis
    by simp
qed

text \<open>
  What the factory does once its imports have succeeded: it looks the pair of the bank
  code and the lower-cased extension up in the registry, and a pair without a parser gives
  \<open>None\<close>, after which the statement is marked \<open>FAILED\<close> and nothing is parsed.
\<close>

lemma factory_is_registry:
  "get_parser_for_statement True file_name bank_code
     = Inr (map_of registered_parsers (bank_code, file_extension file_name))"
  by (simp add: get_parser_for_statement_def registered_parsers_def Let_def cp_def)

lemma unsupported_format_with_imports:
  assumes "map_of registered_parsers (bank_code, file_extension file_name) = None"
  shows "get_parser_for_statement True file_name bank_code = Inr None
       \<and> process_statement_file True parse_file file_name bank_code
           = \<lparr> ProcessingStatus = FAILED, saved_transactions = [], saved_analysis = None \<rparr>"
  using assms by (simp add: factory_is_registry process_statement_file_def)

lemma factory_raises_without_halyk_parser:
  "get_parser_for_statement False file_name bank_code = Inl ModuleNotFoundError
   \<and> process_statement_file False parse_file file_name bank_code = failed_with []"
  by (simp add: get_parser_for_statement_def process_statement_file_def)


text \<open>
  Claim C4 says that a file whose date and amount columns cannot be identified is rejected
  with an error. For a sheet with the columns Name and Paid no date column is found, and
  \<open>parse_file\<close> returns the empty list as its ordinary result.
\<close>

theorem unrecognized_structure_counterexample:
  "\<not> col_set (date_column (identify_columns (excel_sniff_item ascii_lib)
                              [[(cp ''Name'', CStr (cp ''Rent'')), (cp ''Paid'', CStr (cp ''yes''))]]))
   \<and> KaspiExcelParser_parse_file ascii_lib True
       [[(cp ''Name'', CStr (cp ''Rent'')), (cp ''Paid'', CStr (cp ''yes''))]] = Inr []"
  by (simp add: row_defs lib_defs)

text \<open>
  Claim C4, amended. For every tabular or delimited statement whose date and amount
  columns are not both identified by the header scan followed by the content sniffing,
  \<open>parse_file\<close> returns the empty transaction list as its ordinary result: no partial or
  guessed transaction, and no error.
\<close>

theorem unrecognized_structure_returns_empty_list:
  "(\<not> (col_set (date_column (identify_columns (excel_sniff_item L) data))
        \<and> col_set (amount_column (identify_columns (excel_sniff_item L) data)))
    \<longrightarrow> KaspiExcelParser_parse_file L file_exists data = Inr [])
   \<and> (csv_try_delimiters read [Comma, Semicolon, Tab] None = Inr data
      \<and> \<not> (col_set (date_column (identify_columns (csv_sniff_item L) data))
           \<and> col_set (amount_column (identify_columns (csv_sniff_item L) data)))
    \<longrightarrow> KaspiCSVParser_parse_file L file_exists read = Inr [])"
  by (auto simp add: KaspiExcelParser_parse_file_def KaspiCSVParser_parse_file_def
                parse_rows_def Let_def)

theorem unrecognized_structure_returns_empty_list_witness:
  "\<not> (col_set (date_column (identify_columns (excel_sniff_item ascii_lib)
           [[(cp ''Name'', CStr (cp ''Rent'')), (cp ''Paid'', CNum 100 (cp ''100''))]]))
       \<and> col_set (amount_column (identify_columns (excel_sniff_item ascii_lib)
           [[(cp ''Name'', CStr (cp ''Rent'')), (cp ''Paid'', CNum 100 (cp ''100''))]])))
   \<and> KaspiExcelParser_parse_file ascii_lib True
       [[(cp ''Name'', CStr (cp ''Rent'')), (cp ''Paid'', CNum 100 (cp ''100''))]] = Inr []
   \<and> csv_try_delimiters (\<lambda>d e. Some [[(cp ''Name'', CStr (cp ''Rent'')), (cp ''Paid'', CStr (cp ''100''))]])
       [Comma, Semicolon, Tab] None
       = Inr [[(cp ''Name'', CStr (cp ''Rent'')), (cp ''Paid'', CStr (cp ''100''))]]
   \<and> \<not> (col_set (date_column (identify_columns (csv_sniff_item ascii_lib)
           [[(cp ''Name'', CStr (cp ''Rent'')), (cp ''Paid'', CStr (cp ''100''))]]))
       \<and> col_set (amount_column (identify_columns (csv_sniff_item ascii_lib)
           [[(cp ''Name'', CStr (cp ''Rent'')), (cp ''Paid'', CStr (cp ''100''))]])))
   \<and> KaspiCSVParser_parse_file ascii_lib True
       (\<lambda>d e. Some [[(cp ''Name'', CStr (cp ''Rent'')), (cp ''Paid'', CStr (cp ''100''))]]) = Inr []"
proof -
  let ?x = "[[(cp ''Name'', CStr (cp ''Rent'')), (cp ''Paid'', CNum 100 (cp ''100''))]]"
  let ?c = "[[(cp ''Name'', CStr (cp ''Rent'')), (cp ''Paid'', CStr (cp ''100''))]]"
  have hx: "\<not> (col_set (date_column (identify_columns (excel_sniff_item ascii_lib) ?x))
              \<and> col_set (amount_column (identify_columns (excel_sniff_item ascii_lib) ?x)))"
    by (simp add: row_defs lib_defs)
  have hr: "csv_try_delimiters (\<lambda>d e. Some ?c) [Comma, Semicolon, Tab] None = Inr ?c"
    by simp
  have hc: "\<not> (col_set (date_column (identify_columns (csv_sniff_item ascii_lib) ?c))
              \<and> col_set (amount_column (identify_columns (csv_sniff_item ascii_lib) ?c)))"
    by (simp add: row_defs lib_defs)
  from unrecognized_structure_returns_empty_list [of ascii_lib ?x True "\<lambda>d e. Some ?c"]
       unrecognized_structure_returns_empty_list [of ascii_lib ?c True "\<lambda>d e. Some ?c"] hx hr hc
  have "KaspiExcelParser_parse_file ascii_lib True ?x = Inr []
      \<and> KaspiCSVParser_parse_file ascii_lib True (\<lambda>d e. Some ?c) = Inr []"
    by blast
  with hx hr hc show ?thesis
    by blast
qed


end
